theory Spec2Isabelle
  imports Complex_Main "HOL-Library.Multiset"
begin

section \<open>Joystick task: adaptation and stop-signal scripts\<close>

text \<open>
  The embedding follows \<^verbatim>\<open>src/adaptation_main.py\<close> and
  \<^verbatim>\<open>src/stop-signal_pilot.py\<close>. Python floats are modelled by the real
  numbers (no rounding), Python integers by \<^typ>\<open>int\<close>. The joystick and the clock
  are inputs: the \<open>k\<close>-th poll of the joystick returns \<open>joy k\<close>, the \<open>k\<close>-th
  reading of the clock returns \<open>clk k\<close>, and the state counts the polls and readings made
  so far. The window is an output: what is drawn between two flips is one frame of the
  list \<open>screen\<close>.
\<close>

subsection \<open>Library functions the scripts call\<close>

datatype error = IndexError | ValueError

text \<open>\<^verbatim>\<open>int(r)\<close> on a float truncates toward zero.\<close>

definition py_int :: "real \<Rightarrow> int" where
  "py_int r = (if 0 \<le> r then \<lfloor>r\<rfloor> else \<lceil>r\<rceil>)"

text \<open>\<^verbatim>\<open>np.arange(n)\<close> for an integer \<open>n\<close>: \<open>0, ..., n - 1\<close>, empty when \<open>n \<le> 0\<close>.\<close>

definition arange :: "int \<Rightarrow> int list" where
  "arange n = map int [0..<nat n]"

text \<open>\<^verbatim>\<open>xs * k\<close> on a list: \<open>k\<close> copies, none when \<open>k \<le> 0\<close>.\<close>

definition py_repeat :: "'a list \<Rightarrow> int \<Rightarrow> 'a list" where
  "py_repeat xs k = concat (replicate (nat k) xs)"

text \<open>
  \<^verbatim>\<open>xs[i]\<close> on a list of length \<open>n\<close>: the entry \<open>i\<close> for \<open>0 \<le> i < n\<close>, the
  entry \<open>n + i\<close> for \<open>- n \<le> i < 0\<close>, and IndexError for every other index.
\<close>

definition py_index :: "'a list \<Rightarrow> int \<Rightarrow> error + 'a" where
  "py_index xs i =
     (if 0 \<le> i \<and> i < int (length xs) then Inr (xs ! nat i)
      else if i < 0 \<and> - int (length xs) \<le> i then Inr (xs ! nat (int (length xs) + i))
      else Inl IndexError)"

definition radians :: "real \<Rightarrow> real" where
  "radians d = d * pi / 180"

text \<open>
  \<^verbatim>\<open>psychopy.tools.coordinatetools\<close> with \<^verbatim>\<open>units="rad"\<close>:
  \<^verbatim>\<open>cart2pol(x, y)\<close> returns \<^verbatim>\<open>(arctan2(y, x), hypot(x, y))\<close> and
  \<^verbatim>\<open>pol2cart(theta, radius)\<close> returns
  \<^verbatim>\<open>(radius * cos(theta), radius * sin(theta))\<close>.
\<close>

definition arctan2 :: "real \<Rightarrow> real \<Rightarrow> real" where
  "arctan2 y x =
     (if 0 < x then arctan (y / x)
      else if x < 0 then (if 0 \<le> y then arctan (y / x) + pi else arctan (y / x) - pi)
      else if 0 < y then pi / 2
      else if y < 0 then - (pi / 2)
      else 0)"

definition hypot :: "real \<Rightarrow> real \<Rightarrow> real" where
  "hypot x y = sqrt (x\<^sup>2 + y\<^sup>2)"

definition cart2pol :: "real \<Rightarrow> real \<Rightarrow> real \<times> real" where
  "cart2pol x y = (arctan2 y x, hypot x y)"

definition pol2cart :: "real \<Rightarrow> real \<Rightarrow> real \<times> real" where
  "pol2cart theta radius = (radius * cos theta, radius * sin theta)"

subsection \<open>adaptation_main.py: the experiment phase of a trial\<close>

definition NO_PERTURBATION_TRIAL :: int where
  "NO_PERTURBATION_TRIAL = 80"

definition ADAPTATION_PHASE_START :: int where
  "ADAPTATION_PHASE_START = 80"

definition ADAPTATION_PHASE_END :: int where
  "ADAPTATION_PHASE_END = 230"

definition PERTURBATION_ANGLE :: real where
  "PERTURBATION_ANGLE = radians 60"

datatype ExperimentPhases = NO_PERTURBATION | ADAPTATION | AFTER_EFFECT

definition determine_experiment_phase :: "int \<Rightarrow> ExperimentPhases" where
  "determine_experiment_phase trial =
     (if trial < NO_PERTURBATION_TRIAL then NO_PERTURBATION
      else if ADAPTATION_PHASE_START \<le> trial \<and> trial \<le> ADAPTATION_PHASE_END then ADAPTATION
      else AFTER_EFFECT)"

text \<open>The perturbation that \<^verbatim>\<open>ExperimentRunner.run\<close> passes to the trial.\<close>

definition phase_perturbation :: "ExperimentPhases \<Rightarrow> real" where
  "phase_perturbation current_phase =
     (if current_phase = NO_PERTURBATION then 0
      else if current_phase = ADAPTATION then PERTURBATION_ANGLE
      else 0)"

definition trial_perturbation :: "int \<Rightarrow> real" where
  "trial_perturbation trial = phase_perturbation (determine_experiment_phase trial)"

subsection \<open>The joystick, the clock and the window\<close>

type_synonym device = "nat \<Rightarrow> real \<times> real"
type_synonym timer = "nat \<Rightarrow> real"

text \<open>A \<^verbatim>\<open>visual.Circle\<close>: the attributes the scripts assign.\<close>

record stim =
  fillColor :: "string option"
  lineColor :: string
  pos :: "real \<times> real"

datatype draw = DrawTarget stim | DrawCursor "real \<times> real" | DrawText string

record env =
  polls :: nat
  ticks :: nat
  target :: stim
  cursor_pos :: "real \<times> real"
  pending :: "draw list"
  screen :: "draw list list"

text \<open>\<^verbatim>\<open>exp_clock.getTime()\<close>\<close>

definition getTime :: "timer \<Rightarrow> 'a env_scheme \<Rightarrow> real \<times> 'a env_scheme" where
  "getTime clk e = (clk (ticks e), e\<lparr>ticks := Suc (ticks e)\<rparr>)"

text \<open>\<^verbatim>\<open>x, y = joy.getX(), -joy.getY()\<close>\<close>

definition getXY :: "device \<Rightarrow> 'a env_scheme \<Rightarrow> (real \<times> real) \<times> 'a env_scheme" where
  "getXY joy e = ((fst (joy (polls e)), - snd (joy (polls e))), e\<lparr>polls := Suc (polls e)\<rparr>)"

definition draw_target :: "'a env_scheme \<Rightarrow> 'a env_scheme" where
  "draw_target e = e\<lparr>pending := pending e @ [DrawTarget (target e)]\<rparr>"

definition draw_cursor :: "'a env_scheme \<Rightarrow> 'a env_scheme" where
  "draw_cursor e = e\<lparr>pending := pending e @ [DrawCursor (cursor_pos e)]\<rparr>"

definition draw_text :: "string \<Rightarrow> 'a env_scheme \<Rightarrow> 'a env_scheme" where
  "draw_text txt e = e\<lparr>pending := pending e @ [DrawText txt]\<rparr>"

text \<open>\<^verbatim>\<open>win.flip()\<close> shows what was drawn since the last flip.\<close>

definition flip :: "'a env_scheme \<Rightarrow> 'a env_scheme" where
  "flip e = e\<lparr>screen := screen e @ [pending e], pending := []\<rparr>"

subsection \<open>The centring gate of both scripts\<close>

text \<open>
  \<^verbatim>\<open>while True:\<close> poll the joystick; while the scaled radius is at least the
  starting radius, show the release prompt; otherwise leave the loop. The loop need not
  end, so the result is an option. Of the prompt only its text is kept, not its position
  and height.
\<close>

definition gate_radius :: "real \<Rightarrow> device \<Rightarrow> 'a env_scheme \<Rightarrow> real" where
  "gate_radius sc joy e =
     (let ((x, y), e) = getXY joy e;
          x = x * sc;
          y = y * sc;
          (theta, radius) = cart2pol x y
      in radius)"

definition gate_prompt :: "device \<Rightarrow> 'a env_scheme \<Rightarrow> 'a env_scheme" where
  "gate_prompt joy e = flip (draw_text ''Release the joysitic'' (snd (getXY joy e)))"

partial_function (option) centre_gate ::
  "real \<Rightarrow> real \<Rightarrow> device \<Rightarrow> 'a env_scheme \<Rightarrow> 'a env_scheme option" where
  "centre_gate sc sr joy e =
     (if gate_radius sc joy e \<ge> sr then centre_gate sc sr joy (gate_prompt joy e)
      else Some (snd (getXY joy e)))"

subsection \<open>adaptation_main.py: settings, target angles and the phase runner\<close>

text \<open>
  The keys of \<^verbatim>\<open>config/exp_settings.json\<close> that the runner reads, and the
  rounded frame rate that \<^verbatim>\<open>ExperimentSetup\<close> measures.
\<close>

record settings =
  n_trial :: int
  target_angle :: real
  scaling :: real
  starting_radius :: real
  hidden_radius :: real
  fixation_time :: real
  ready_time :: real
  go_time :: real
  post_go_time :: real
  ITI :: "real \<times> real"
  target_origin :: "real \<times> real"

record ExperimentSetup = settings +
  framerate_r :: real

definition generate_angle_list :: "'a settings_scheme \<Rightarrow> real list" where
  "generate_angle_list su =
     py_repeat (map (\<lambda>i. radians (target_angle su * of_int i)) (arange 5))
       (py_int (of_int (n_trial su) / 5))"

text \<open>The local variables of \<^verbatim>\<open>run_phase\<close>.\<close>

record phase_vars =
  x_tmp :: "real list"
  y_tmp :: "real list"
  t_tmp :: "real list"
  tmp_start :: int
  tmp_full :: int

text \<open>One iteration of the frame loop of \<^verbatim>\<open>run_phase\<close>.\<close>

definition phase_frame ::
  "ExperimentSetup \<Rightarrow> device \<Rightarrow> timer \<Rightarrow> real \<Rightarrow> string \<Rightarrow> bool \<Rightarrow> phase_vars \<times> env \<Rightarrow> phase_vars \<times> env" where
  "phase_frame su joy clk perturbation phase_name go_phase ve =
     (let (v, e) = ve;
          ((x, y), e) = getXY joy e;
          v = v\<lparr>x_tmp := x_tmp v @ [x]\<rparr>;
          v = v\<lparr>y_tmp := y_tmp v @ [y]\<rparr>;
          (t, e) = getTime clk e;
          v = v\<lparr>t_tmp := t_tmp v @ [t]\<rparr>;
          x = x * scaling su;
          y = y * scaling su;
          (theta, radius) = cart2pol x y;
          theta = theta + perturbation;
          e = e\<lparr>cursor_pos := pol2cart theta radius\<rparr>;
          (v, e) =
            (if go_phase then
               (if radius < starting_radius su then (v, draw_cursor e)
                else if radius < hidden_radius su * (9 / 10) then (v\<lparr>tmp_start := 1\<rparr>, e)
                else (v\<lparr>tmp_full := 1\<rparr>, draw_cursor e))
             else (v, e));
          e = (if phase_name = ''ready'' then draw_cursor e else draw_target e)
      in (v, flip e))"

definition phase_frames :: "ExperimentSetup \<Rightarrow> real \<Rightarrow> int list" where
  "phase_frames su duration = arange (py_int (framerate_r su * duration))"

definition frame_loop ::
  "ExperimentSetup \<Rightarrow> device \<Rightarrow> timer \<Rightarrow> real \<Rightarrow> string \<Rightarrow> bool \<Rightarrow> int list \<Rightarrow>
     phase_vars \<times> env \<Rightarrow> phase_vars \<times> env" where
  "frame_loop su joy clk perturbation phase_name go_phase fs ve =
     fold (\<lambda>frame_n. phase_frame su joy clk perturbation phase_name go_phase) fs ve"

definition run_phase ::
  "ExperimentSetup \<Rightarrow> device \<Rightarrow> timer \<Rightarrow> real \<Rightarrow> real \<Rightarrow> string \<Rightarrow> bool \<Rightarrow> env \<Rightarrow>
     (real \<times> real list \<times> real list \<times> real list \<times> int \<times> int) \<times> env" where
  "run_phase su joy clk duration perturbation phase_name go_phase e =
     (let v = \<lparr>x_tmp = [], y_tmp = [], t_tmp = [], tmp_start = 0, tmp_full = 0\<rparr>;
          (exp_phase_onset, e) = getTime clk e;
          (v, e) = frame_loop su joy clk perturbation phase_name go_phase
                     (phase_frames su duration) (v, e)
      in ((exp_phase_onset, x_tmp v, y_tmp v, t_tmp v, tmp_start v, tmp_full v), e))"

text \<open>
  \<^verbatim>\<open>execute_trial\<close>: the target is drawn, the centring gate is passed, the target
  is put at the origin and the fixation phase runs. \<^verbatim>\<open>run_phase\<close> returns six values
  and the call site names four, so the assignment raises; nothing after it runs.
\<close>

definition execute_trial ::
  "ExperimentSetup \<Rightarrow> device \<Rightarrow> timer \<Rightarrow> int \<Rightarrow> real \<Rightarrow> env \<Rightarrow> (error + env) option" where
  "execute_trial su joy clk trial perturbation e =
     (case centre_gate (scaling su) (starting_radius su) joy (flip (draw_target e)) of
        None \<Rightarrow> None
      | Some e \<Rightarrow>
          (let e = e\<lparr>target := (target e)\<lparr>fillColor := None, pos := target_origin su\<rparr>\<rparr>;
               (r, e) = run_phase su joy clk (fixation_time su) perturbation ''fixation'' False e
           in Some (Inl ValueError)))"

subsection \<open>stop-signal_pilot.py: constants, inputs and state\<close>

text \<open>
  The settings of the script. Names that the settings of adaptation_main.py already use
  carry a prime. \<open>ssd_init\<close> is the value the script first assigns to \<^verbatim>\<open>ssd\<close>.
\<close>

definition Ntrial :: int where
  "Ntrial = 310"

definition stop_trial :: int where
  "stop_trial = 100"

definition target_angle' :: real where
  "target_angle' = 45"

definition hidden_radius' :: real where
  "hidden_radius' = 10"

definition target_origin' :: "real \<times> real" where
  "target_origin' = (0, 0)"

definition starting_radius' :: real where
  "starting_radius' = 1"

definition scaling' :: real where
  "scaling' = 12"

definition fix_time :: real where
  "fix_time = 75 / 100"

definition ready_time' :: real where
  "ready_time' = 15 / 10"

definition go_time' :: real where
  "go_time' = 75 / 100"

definition ssd_init :: real where
  "ssd_init = 2 / 10"

definition post_go_time' :: real where
  "post_go_time' = 125 / 100"

text \<open>The two lists before \<^verbatim>\<open>rnd.shuffle\<close> permutes them.\<close>

definition angle_list_made :: "real list" where
  "angle_list_made =
     py_repeat (map (\<lambda>i. radians (target_angle' * of_int i)) (arange 5))
       (py_int (of_int Ntrial / 5))"

definition go_list_made :: "int list" where
  "go_list_made = py_repeat [1] (Ntrial - stop_trial) @ py_repeat [0] stop_trial"

text \<open>
  What the script receives: the joystick, the clock, the measured and rounded frame rate,
  whether \<^verbatim>\<open>q\<close> was pressed when trial \<open>k\<close> asks, the inter-trial interval drawn
  for trial \<open>k\<close>, and the two shuffled lists.
\<close>

record inputs =
  in_joy :: device
  in_clk :: timer
  in_framerate_r :: real
  in_q :: "nat \<Rightarrow> bool"
  in_uniform :: "nat \<Rightarrow> real"
  angle_list :: "real list"
  go_list :: "int list"

text \<open>One row of \<^verbatim>\<open>data_dict\<close>, a value for each column.\<close>

record row =
  col_ID :: string
  col_trial :: int
  col_fix_dur :: real
  col_ready_dur :: real
  col_go_dur :: real
  col_post_go_dur :: real
  col_ITI_dur :: real
  col_SSD :: real
  col_target_angle :: real
  col_GO_Stop :: int
  col_start_mov :: int
  col_full_mov :: int

text \<open>
  The global variables of the script. \<open>csv_writes\<close> lists the tables written by
  \<^verbatim>\<open>to_csv\<close>, \<open>npy_writes\<close> the traces written by \<^verbatim>\<open>np.save\<close> with the
  trial index of the file name.
\<close>

record pilot = env +
  subj_ID :: string
  ssd :: real
  x_trial :: "real list"
  y_trial :: "real list"
  t_trial :: "real list"
  start_mov :: int
  full_mov :: int
  exp_fix_onset :: real
  exp_ready_onset :: real
  exp_go_onset :: real
  exp_post_go_onset :: real
  exp_iti_onset :: real
  ITI_time :: real
  data_dict :: "row list"
  csv_writes :: "row list list"
  npy_writes :: "(int \<times> real list \<times> real list \<times> real list) list"

subsection \<open>stop-signal_pilot.py: the phases of a trial\<close>

text \<open>The lines every frame loop of the script starts with; the radius is returned.\<close>

definition sample_joystick :: "inputs \<Rightarrow> pilot \<Rightarrow> real \<times> pilot" where
  "sample_joystick inp st =
     (let ((x, y), st) = getXY (in_joy inp) st;
          st = st\<lparr>x_trial := x_trial st @ [x]\<rparr>;
          st = st\<lparr>y_trial := y_trial st @ [y]\<rparr>;
          (t, st) = getTime (in_clk inp) st;
          st = st\<lparr>t_trial := t_trial st @ [t]\<rparr>;
          x = x * scaling';
          y = y * scaling';
          (theta, radius) = cart2pol x y;
          st = st\<lparr>cursor_pos := pol2cart theta radius\<rparr>
      in (radius, st))"

definition frames :: "inputs \<Rightarrow> real \<Rightarrow> int list" where
  "frames inp duration = arange (py_int (in_framerate_r inp * duration))"

definition reset_trial :: "pilot \<Rightarrow> pilot" where
  "reset_trial st = st\<lparr>x_trial := [], y_trial := [], t_trial := [], start_mov := 0, full_mov := 0\<rparr>"

definition fixation_frame :: "inputs \<Rightarrow> int \<Rightarrow> pilot \<Rightarrow> pilot" where
  "fixation_frame inp frameN st =
     (let (radius, st) = sample_joystick inp st;
          st = draw_target st
      in flip st)"

definition fixation_phase :: "inputs \<Rightarrow> pilot \<Rightarrow> pilot" where
  "fixation_phase inp st =
     (let st = st\<lparr>target := (target st)\<lparr>fillColor := None, pos := target_origin'\<rparr>\<rparr>;
          (t, st) = getTime (in_clk inp) st;
          st = st\<lparr>exp_fix_onset := t\<rparr>
      in fold (fixation_frame inp) (frames inp fix_time) st)"

definition ready_frame :: "inputs \<Rightarrow> int \<Rightarrow> pilot \<Rightarrow> pilot" where
  "ready_frame inp frameN st =
     (let (radius, st) = sample_joystick inp st;
          st = draw_cursor st
      in flip st)"

definition ready_phase :: "inputs \<Rightarrow> pilot \<Rightarrow> pilot" where
  "ready_phase inp st =
     (let (t, st) = getTime (in_clk inp) st;
          st = st\<lparr>exp_ready_onset := t\<rparr>
      in fold (ready_frame inp) (frames inp ready_time') st)"

text \<open>
  A frame of the GO loop. \<open>go\<close> is \<^verbatim>\<open>go_list[trial]\<close>: 1 on a go trial, 0 on a
  stop trial.
\<close>

definition go_frame :: "inputs \<Rightarrow> int \<Rightarrow> int \<Rightarrow> pilot \<Rightarrow> pilot" where
  "go_frame inp go frameN st =
     (let (radius, st) = sample_joystick inp st;
          st = (if frameN = py_int (in_framerate_r inp * ssd st) \<and> go = 0
                then st\<lparr>target := (target st)\<lparr>fillColor := Some ''red'', lineColor := ''red''\<rparr>\<rparr>
                else st);
          st = draw_target st;
          st = (if radius < starting_radius' then draw_cursor st
                else if radius < hidden_radius' * (9 / 10) then st\<lparr>start_mov := 1\<rparr>
                else (draw_cursor st)\<lparr>full_mov := 1\<rparr>)
      in flip st)"

definition go_cue :: "inputs \<Rightarrow> real \<Rightarrow> pilot \<Rightarrow> pilot" where
  "go_cue inp angle st =
     (let st = st\<lparr>target := (target st)\<lparr>fillColor := Some ''green'', lineColor := ''green'',
                 pos := pol2cart angle hidden_radius'\<rparr>\<rparr>;
          (t, st) = getTime (in_clk inp) st
      in st\<lparr>exp_go_onset := t\<rparr>)"

definition go_loop :: "inputs \<Rightarrow> int \<Rightarrow> int list \<Rightarrow> pilot \<Rightarrow> pilot" where
  "go_loop inp go fs st = fold (go_frame inp go) fs st"

definition go_phase :: "inputs \<Rightarrow> real \<Rightarrow> int \<Rightarrow> pilot \<Rightarrow> pilot" where
  "go_phase inp angle go st = go_loop inp go (frames inp go_time') (go_cue inp angle st)"

definition post_go_frame :: "inputs \<Rightarrow> int \<Rightarrow> pilot \<Rightarrow> pilot" where
  "post_go_frame inp frameN st =
     (let (radius, st) = sample_joystick inp st;
          st = draw_target st
      in flip st)"

definition post_go_phase :: "inputs \<Rightarrow> pilot \<Rightarrow> pilot" where
  "post_go_phase inp st =
     (let st = st\<lparr>target := (target st)\<lparr>fillColor := None, lineColor := ''white'',
                 pos := target_origin'\<rparr>\<rparr>;
          (t, st) = getTime (in_clk inp) st;
          st = st\<lparr>exp_post_go_onset := t\<rparr>
      in fold (post_go_frame inp) (frames inp post_go_time') st)"

text \<open>The inter-trial interval: the row of the trial is appended and both files are written.\<close>

definition trial_row :: "int \<Rightarrow> real \<Rightarrow> int \<Rightarrow> pilot \<Rightarrow> row" where
  "trial_row trial angle go st =
     \<lparr>col_ID = subj_ID st, col_trial = trial,
      col_fix_dur = exp_ready_onset st - exp_fix_onset st,
      col_ready_dur = exp_go_onset st - exp_ready_onset st,
      col_go_dur = exp_post_go_onset st - exp_go_onset st,
      col_post_go_dur = exp_iti_onset st - exp_post_go_onset st,
      col_ITI_dur = ITI_time st,
      col_SSD = ssd st,
      col_target_angle = angle,
      col_GO_Stop = go,
      col_start_mov = start_mov st,
      col_full_mov = full_mov st\<rparr>"

definition iti_log :: "inputs \<Rightarrow> int \<Rightarrow> real \<Rightarrow> int \<Rightarrow> pilot \<Rightarrow> pilot" where
  "iti_log inp trial angle go st =
     (let (t, st) = getTime (in_clk inp) st;
          st = st\<lparr>exp_iti_onset := t\<rparr>;
          st = st\<lparr>ITI_time := in_uniform inp (nat trial)\<rparr>;
          st = flip (draw_target st);
          st = st\<lparr>data_dict := data_dict st @ [trial_row trial angle go st]\<rparr>;
          st = st\<lparr>csv_writes := csv_writes st @ [data_dict st]\<rparr>
      in st\<lparr>npy_writes := npy_writes st @ [(trial, x_trial st, y_trial st, t_trial st)]\<rparr>)"

text \<open>\<^verbatim>\<open>#increase or reduce ssd\<close>\<close>

definition staircase :: "int \<Rightarrow> int \<Rightarrow> real \<Rightarrow> real" where
  "staircase go fm s =
     (if go = 0 then (if fm \<noteq> 0 then s - 5 / 100 else s + 5 / 100) else s)"

definition staircase_update :: "int \<Rightarrow> pilot \<Rightarrow> pilot" where
  "staircase_update go st = st\<lparr>ssd := staircase go (full_mov st) (ssd st)\<rparr>"

text \<open>
  The body of the trial loop after the key check. The state in which the GO cue is given
  is \<open>before_go\<close>. \<^verbatim>\<open>angle_list[trial]\<close> and \<^verbatim>\<open>go_list[trial]\<close> are read
  once, before the GO loop: a read changes nothing, and an index out of range ends the
  script wherever the read stands.
\<close>

definition before_go :: "inputs \<Rightarrow> pilot \<Rightarrow> pilot" where
  "before_go inp st = ready_phase inp (fixation_phase inp (reset_trial st))"

definition after_gate :: "inputs \<Rightarrow> int \<Rightarrow> pilot \<Rightarrow> error + pilot" where
  "after_gate inp trial st =
     (case py_index (angle_list inp) trial of
        Inl err \<Rightarrow> Inl err
      | Inr angle \<Rightarrow>
          (case py_index (go_list inp) trial of
             Inl err \<Rightarrow> Inl err
           | Inr go \<Rightarrow>
               Inr (staircase_update go
                      (iti_log inp trial angle go
                         (post_go_phase inp (go_phase inp angle go (before_go inp st)))))))"

definition pilot_trial :: "inputs \<Rightarrow> int \<Rightarrow> pilot \<Rightarrow> (error + pilot) option" where
  "pilot_trial inp trial st =
     (case centre_gate scaling' starting_radius' (in_joy inp) (flip (draw_target st)) of
        None \<Rightarrow> None
      | Some st \<Rightarrow> Some (after_gate inp trial st))"

text \<open>\<^verbatim>\<open>for trial in np.arange(Ntrial)\<close>, left when \<^verbatim>\<open>q\<close> was pressed.\<close>

fun trial_loop :: "inputs \<Rightarrow> int list \<Rightarrow> pilot \<Rightarrow> (error + pilot) option" where
  "trial_loop inp [] st = Some (Inr st)"
| "trial_loop inp (trial # trials) st =
     (if in_q inp (nat trial) then Some (Inr st)
      else (case pilot_trial inp trial st of
              None \<Rightarrow> None
            | Some (Inl err) \<Rightarrow> Some (Inl err)
            | Some (Inr st) \<Rightarrow> trial_loop inp trials st))"

definition pilot_session :: "inputs \<Rightarrow> pilot \<Rightarrow> (error + pilot) option" where
  "pilot_session inp st = trial_loop inp (arange Ntrial) (st\<lparr>ssd := ssd_init\<rparr>)"

subsection \<open>Notions used to state the properties\<close>

text \<open>The polar position of the \<open>k\<close>-th joystick sample after scaling.\<close>

definition scaled_theta :: "real \<Rightarrow> device \<Rightarrow> nat \<Rightarrow> real" where
  "scaled_theta sc joy k = fst (cart2pol (fst (joy k) * sc) (- snd (joy k) * sc))"

definition scaled_radius :: "real \<Rightarrow> device \<Rightarrow> nat \<Rightarrow> real" where
  "scaled_radius sc joy k = snd (cart2pol (fst (joy k) * sc) (- snd (joy k) * sc))"


fun cursor_shown :: "draw list \<Rightarrow> bool" where
  "cursor_shown [] = False"
| "cursor_shown (DrawCursor c # ds) = True"
| "cursor_shown (d # ds) = cursor_shown ds"


text \<open>The parts of what \<^verbatim>\<open>run_phase\<close> returns.\<close>

definition res_onset :: "(real \<times> real list \<times> real list \<times> real list \<times> int \<times> int) \<times> env \<Rightarrow> real" where
  "res_onset r = fst (fst r)"

definition res_x :: "(real \<times> real list \<times> real list \<times> real list \<times> int \<times> int) \<times> env \<Rightarrow> real list" where
  "res_x r = fst (snd (fst r))"

definition res_y :: "(real \<times> real list \<times> real list \<times> real list \<times> int \<times> int) \<times> env \<Rightarrow> real list" where
  "res_y r = fst (snd (snd (fst r)))"

definition res_t :: "(real \<times> real list \<times> real list \<times> real list \<times> int \<times> int) \<times> env \<Rightarrow> real list" where
  "res_t r = fst (snd (snd (snd (fst r))))"

definition res_start :: "(real \<times> real list \<times> real list \<times> real list \<times> int \<times> int) \<times> env \<Rightarrow> int" where
  "res_start r = fst (snd (snd (snd (snd (fst r)))))"

definition res_full :: "(real \<times> real list \<times> real list \<times> real list \<times> int \<times> int) \<times> env \<Rightarrow> int" where
  "res_full r = snd (snd (snd (snd (snd (fst r)))))"

text \<open>The outcomes of the trials whose rows were appended, and those rows.\<close>

definition new_rows :: "pilot \<Rightarrow> pilot \<Rightarrow> row list" where
  "new_rows st st' = drop (length (data_dict st)) (data_dict st')"

definition outcome :: "row \<Rightarrow> int \<times> int" where
  "outcome r = (col_GO_Stop r, col_full_mov r)"

text \<open>The staircase over a sequence of trials, each given by its go label and its full_mov.\<close>

definition staircase_run :: "(int \<times> int) list \<Rightarrow> real \<Rightarrow> real" where
  "staircase_run outcomes s = fold (\<lambda>(go, fm). staircase go fm) outcomes s"

subsection \<open>Example inputs\<close>

definition still :: device where
  "still = (\<lambda>k. (0, 0))"

definition hold :: device where
  "hold = (\<lambda>k. (1 / 24, 0))"

definition reach :: device where
  "reach = (\<lambda>k. ((1 / 2 + 3 * real k) / 12, 0))"

definition seconds :: timer where
  "seconds = (\<lambda>k. real k / 60)"

definition env0 :: env where
  "env0 = \<lparr>polls = 0, ticks = 0,
            target = \<lparr>fillColor = None, lineColor = ''white'', pos = (0, 0)\<rparr>,
            cursor_pos = (0, 0), pending = [], screen = []\<rparr>"

definition example_setup :: "real \<Rightarrow> ExperimentSetup" where
  "example_setup fr =
     \<lparr>n_trial = 310, target_angle = 45, scaling = 12, starting_radius = 1, hidden_radius = 10,
      fixation_time = 75 / 100, ready_time = 15 / 10, go_time = 1, post_go_time = 125 / 100,
      ITI = (1 / 2, 75 / 100), target_origin = (0, 0), framerate_r = fr\<rparr>"

definition pilot0 :: "real \<Rightarrow> pilot" where
  "pilot0 s =
     \<lparr>polls = 0, ticks = 0,
      target = \<lparr>fillColor = None, lineColor = ''white'', pos = (0, 0)\<rparr>,
      cursor_pos = (0, 0), pending = [], screen = [],
      subj_ID = ''0000'', ssd = s, x_trial = [], y_trial = [], t_trial = [],
      start_mov = 0, full_mov = 0, exp_fix_onset = 0, exp_ready_onset = 0, exp_go_onset = 0,
      exp_post_go_onset = 0, exp_iti_onset = 0, ITI_time = 0, data_dict = [],
      csv_writes = [], npy_writes = []\<rparr>"

definition example_inputs :: "device \<Rightarrow> real \<Rightarrow> inputs" where
  "example_inputs joy fr =
     \<lparr>in_joy = joy, in_clk = seconds, in_framerate_r = fr, in_q = (\<lambda>k. False),
      in_uniform = (\<lambda>k. 6 / 10), angle_list = [0, 0, 0], go_list = [0, 1, 0]\<rparr>"

section \<open>Properties\<close>

subsection \<open>The experiment phase scheduler\<close>

lemma boundaries:
  "NO_PERTURBATION_TRIAL = 80" "ADAPTATION_PHASE_START = 80" "ADAPTATION_PHASE_END = 230"
  by (simp_all add: NO_PERTURBATION_TRIAL_def ADAPTATION_PHASE_START_def
      ADAPTATION_PHASE_END_def)

text \<open>
  C1. Every trial index is classified by the piecewise rule: below the no-perturbation
  boundary the phase is NO_PERTURBATION with perturbation 0; from the adaptation start to
  the adaptation end, both included, it is ADAPTATION with the fixed angle; every other
  index is AFTER_EFFECT with perturbation 0. With the boundaries 80, 80 and 230 of the
  script, trial 79 is NO_PERTURBATION, trials 80 and 230 are ADAPTATION and trial 231 is
  AFTER_EFFECT.
\<close>

theorem determine_experiment_phase_piecewise:
  "(t < NO_PERTURBATION_TRIAL \<longrightarrow>
      determine_experiment_phase t = NO_PERTURBATION \<and> trial_perturbation t = 0) \<and>
   (ADAPTATION_PHASE_START \<le> t \<and> t \<le> ADAPTATION_PHASE_END \<longrightarrow>
      determine_experiment_phase t = ADAPTATION \<and> trial_perturbation t = PERTURBATION_ANGLE) \<and>
   (\<not> t < NO_PERTURBATION_TRIAL \<and> \<not> (ADAPTATION_PHASE_START \<le> t \<and> t \<le> ADAPTATION_PHASE_END) \<longrightarrow>
      determine_experiment_phase t = AFTER_EFFECT \<and> trial_perturbation t = 0) \<and>
   determine_experiment_phase 79 = NO_PERTURBATION \<and>
   determine_experiment_phase 80 = ADAPTATION \<and>
   determine_experiment_phase 230 = ADAPTATION \<and>
   determine_experiment_phase 231 = AFTER_EFFECT"
  by (simp add: determine_experiment_phase_def trial_perturbation_def phase_perturbation_def
      boundaries)

theorem determine_experiment_phase_piecewise_witness:
  "(79::int) < NO_PERTURBATION_TRIAL \<and> trial_perturbation 79 = 0 \<and>
   ADAPTATION_PHASE_START \<le> (100::int) \<and> (100::int) \<le> ADAPTATION_PHASE_END \<and>
   trial_perturbation 100 = PERTURBATION_ANGLE \<and>
   \<not> (300::int) < NO_PERTURBATION_TRIAL \<and>
   \<not> (ADAPTATION_PHASE_START \<le> (300::int) \<and> (300::int) \<le> ADAPTATION_PHASE_END) \<and>
   determine_experiment_phase 300 = AFTER_EFFECT \<and> trial_perturbation 300 = 0"
proof -
  have a: "(79::int) < NO_PERTURBATION_TRIAL"
    by (simp add: boundaries)
  have b: "ADAPTATION_PHASE_START \<le> (100::int) \<and> (100::int) \<le> ADAPTATION_PHASE_END"
    by (simp add: boundaries)
  have c: "\<not> (300::int) < NO_PERTURBATION_TRIAL \<and>
      \<not> (ADAPTATION_PHASE_START \<le> (300::int) \<and> (300::int) \<le> ADAPTATION_PHASE_END)"
    by (simp add: boundaries)
  from a determine_experiment_phase_piecewise [of 79]
  have a': "trial_perturbation 79 = 0" by blast
  from b determine_experiment_phase_piecewise [of 100]
  have b': "trial_perturbation 100 = PERTURBATION_ANGLE" by blast
  from c determine_experiment_phase_piecewise [of 300]
  have c': "determine_experiment_phase 300 = AFTER_EFFECT \<and> trial_perturbation 300 = 0"
    by blast
  from a b c a' b' c' show ?thesis by blast
qed

subsection \<open>Frames of the phase runner\<close>

lemma py_int_nat: "nat (py_int r) = nat \<lfloor>r\<rfloor>"
  by (auto simp: py_int_def not_le nat_eq_iff2)

lemma upt_shift: "[m..<m + length (f # fs)] = m # [Suc m..<Suc m + length fs]"
proof -
  have "[m..<m + length (f # fs)] = m # [Suc m..<m + length (f # fs)]"
    by (rule upt_conv_Cons) simp
  then show ?thesis by simp
qed

lemma length_arange [simp]: "length (arange n) = nat n"
  by (simp add: arange_def)

lemma phase_frame_eq:
  "phase_frame su joy clk p nm g ve =
     (let v = fst ve; e = snd ve; k = polls e;
          r = scaled_radius (scaling su) joy k;
          v1 = v\<lparr>x_tmp := x_tmp v @ [fst (joy k)], y_tmp := y_tmp v @ [- snd (joy k)],
                 t_tmp := t_tmp v @ [clk (ticks e)]\<rparr>;
          e1 = e\<lparr>polls := Suc k, ticks := Suc (ticks e),
                 cursor_pos := pol2cart (scaled_theta (scaling su) joy k + p) r\<rparr>;
          v2 = (if g then (if r < starting_radius su then v1
                           else if r < hidden_radius su * (9 / 10) then v1\<lparr>tmp_start := 1\<rparr>
                           else v1\<lparr>tmp_full := 1\<rparr>) else v1);
          e2 = (if g \<and> \<not> (starting_radius su \<le> r \<and> r < hidden_radius su * (9 / 10))
                then draw_cursor e1 else e1)
      in (v2, flip (if nm = ''ready'' then draw_cursor e2 else draw_target e2)))"
  by (cases ve) (simp add: phase_frame_def Let_def getXY_def getTime_def scaled_radius_def
      scaled_theta_def split_beta)

lemma frame_loop_Nil [simp]: "frame_loop su joy clk p nm g [] ve = ve"
  by (simp add: frame_loop_def)

lemma frame_loop_Cons [simp]:
  "frame_loop su joy clk p nm g (f # fs) ve =
     frame_loop su joy clk p nm g fs (phase_frame su joy clk p nm g ve)"
  by (simp add: frame_loop_def)

lemma frame_loop_append:
  "frame_loop su joy clk p nm g (fs @ gs) ve =
     frame_loop su joy clk p nm g gs (frame_loop su joy clk p nm g fs ve)"
  by (simp add: frame_loop_def)

lemma phase_frame_polls [simp]:
  "polls (snd (phase_frame su joy clk p nm g ve)) = Suc (polls (snd ve))"
  by (simp add: phase_frame_eq Let_def flip_def draw_cursor_def draw_target_def)

lemma phase_frame_ticks [simp]:
  "ticks (snd (phase_frame su joy clk p nm g ve)) = Suc (ticks (snd ve))"
  by (simp add: phase_frame_eq Let_def flip_def draw_cursor_def draw_target_def)

lemma phase_frame_x [simp]:
  "x_tmp (fst (phase_frame su joy clk p nm g ve)) = x_tmp (fst ve) @ [fst (joy (polls (snd ve)))]"
  by (simp add: phase_frame_eq Let_def)

lemma phase_frame_y [simp]:
  "y_tmp (fst (phase_frame su joy clk p nm g ve)) = y_tmp (fst ve) @ [- snd (joy (polls (snd ve)))]"
  by (simp add: phase_frame_eq Let_def)

lemma phase_frame_t [simp]:
  "t_tmp (fst (phase_frame su joy clk p nm g ve)) = t_tmp (fst ve) @ [clk (ticks (snd ve))]"
  by (simp add: phase_frame_eq Let_def)

lemma phase_frame_start:
  "tmp_start (fst (phase_frame su joy clk p nm g ve)) =
     (if g \<and> starting_radius su \<le> scaled_radius (scaling su) joy (polls (snd ve)) \<and>
         scaled_radius (scaling su) joy (polls (snd ve)) < hidden_radius su * (9 / 10)
      then 1 else tmp_start (fst ve))"
  by (simp add: phase_frame_eq Let_def)

lemma phase_frame_full:
  "tmp_full (fst (phase_frame su joy clk p nm g ve)) =
     (if g \<and> starting_radius su \<le> scaled_radius (scaling su) joy (polls (snd ve)) \<and>
         hidden_radius su * (9 / 10) \<le> scaled_radius (scaling su) joy (polls (snd ve))
      then 1 else tmp_full (fst ve))"
  by (simp add: phase_frame_eq Let_def)

lemma frame_loop_polls [simp]:
  "polls (snd (frame_loop su joy clk p nm g fs ve)) = polls (snd ve) + length fs"
  by (induction fs arbitrary: ve) simp_all

lemma frame_loop_ticks [simp]:
  "ticks (snd (frame_loop su joy clk p nm g fs ve)) = ticks (snd ve) + length fs"
  by (induction fs arbitrary: ve) simp_all

lemma frame_loop_x:
  "x_tmp (fst (frame_loop su joy clk p nm g fs ve)) =
     x_tmp (fst ve) @ map (\<lambda>k. fst (joy k)) [polls (snd ve)..<polls (snd ve) + length fs]"
proof (induction fs arbitrary: ve)
  case Nil
  then show ?case by simp
next
  case (Cons f fs)
  show ?case
    unfolding upt_shift by (simp add: Cons.IH)
qed

lemma frame_loop_y:
  "y_tmp (fst (frame_loop su joy clk p nm g fs ve)) =
     y_tmp (fst ve) @ map (\<lambda>k. - snd (joy k)) [polls (snd ve)..<polls (snd ve) + length fs]"
proof (induction fs arbitrary: ve)
  case Nil
  then show ?case by simp
next
  case (Cons f fs)
  show ?case
    unfolding upt_shift by (simp add: Cons.IH)
qed

lemma frame_loop_t:
  "t_tmp (fst (frame_loop su joy clk p nm g fs ve)) =
     t_tmp (fst ve) @ map clk [ticks (snd ve)..<ticks (snd ve) + length fs]"
proof (induction fs arbitrary: ve)
  case Nil
  then show ?case by simp
next
  case (Cons f fs)
  show ?case
    unfolding upt_shift by (simp add: Cons.IH)
qed

lemma frame_loop_start:
  "tmp_start (fst (frame_loop su joy clk p nm g fs ve)) =
     (if g \<and> (\<exists>k\<in>{polls (snd ve)..<polls (snd ve) + length fs}.
            starting_radius su \<le> scaled_radius (scaling su) joy k \<and>
            scaled_radius (scaling su) joy k < hidden_radius su * (9 / 10))
      then 1 else tmp_start (fst ve))"
proof (induction fs arbitrary: ve)
  case Nil
  then show ?case by simp
next
  case (Cons f fs)
  have split: "{polls (snd ve)..<polls (snd ve) + length (f # fs)} =
      insert (polls (snd ve)) {Suc (polls (snd ve))..<Suc (polls (snd ve)) + length fs}"
    by auto
  show ?case
    unfolding split by (auto simp: Cons.IH phase_frame_start)
qed

lemma frame_loop_full:
  "tmp_full (fst (frame_loop su joy clk p nm g fs ve)) =
     (if g \<and> (\<exists>k\<in>{polls (snd ve)..<polls (snd ve) + length fs}.
            starting_radius su \<le> scaled_radius (scaling su) joy k \<and>
            hidden_radius su * (9 / 10) \<le> scaled_radius (scaling su) joy k)
      then 1 else tmp_full (fst ve))"
proof (induction fs arbitrary: ve)
  case Nil
  then show ?case by simp
next
  case (Cons f fs)
  have split: "{polls (snd ve)..<polls (snd ve) + length (f # fs)} =
      insert (polls (snd ve)) {Suc (polls (snd ve))..<Suc (polls (snd ve)) + length fs}"
    by auto
  show ?case
    unfolding split by (auto simp: Cons.IH phase_frame_full)
qed

lemma run_phase_eq:
  "run_phase su joy clk d p nm g e =
     (let ve = frame_loop su joy clk p nm g (phase_frames su d)
                 (\<lparr>x_tmp = [], y_tmp = [], t_tmp = [], tmp_start = 0, tmp_full = 0\<rparr>,
                  e\<lparr>ticks := Suc (ticks e)\<rparr>)
      in ((clk (ticks e), x_tmp (fst ve), y_tmp (fst ve), t_tmp (fst ve),
           tmp_start (fst ve), tmp_full (fst ve)), snd ve))"
  by (simp add: run_phase_def Let_def getTime_def split_beta)

lemma phase_frame_screen:
  "screen (snd (phase_frame su joy clk p nm g ve)) =
     screen (snd ve) @
       [pending (snd ve) @
        (if g \<and> \<not> (starting_radius su \<le> scaled_radius (scaling su) joy (polls (snd ve)) \<and>
                   scaled_radius (scaling su) joy (polls (snd ve)) < hidden_radius su * (9 / 10))
         then [DrawCursor (pol2cart (scaled_theta (scaling su) joy (polls (snd ve)) + p)
                 (scaled_radius (scaling su) joy (polls (snd ve))))] else []) @
        [if nm = ''ready''
         then DrawCursor (pol2cart (scaled_theta (scaling su) joy (polls (snd ve)) + p)
                 (scaled_radius (scaling su) joy (polls (snd ve))))
         else DrawTarget (target (snd ve))]]"
  by (simp add: phase_frame_eq Let_def flip_def draw_cursor_def draw_target_def)

lemma phase_frame_cursor_pos:
  "cursor_pos (snd (phase_frame su joy clk p nm g ve)) =
     pol2cart (scaled_theta (scaling su) joy (polls (snd ve)) + p)
       (scaled_radius (scaling su) joy (polls (snd ve)))"
  by (simp add: phase_frame_eq Let_def flip_def draw_cursor_def draw_target_def)

subsection \<open>Frames of the stop-signal script\<close>

lemma fold_keeps:
  assumes "\<And>n s. f (F n s) = f s"
  shows "f (fold F fs s) = f s"
  by (induction fs arbitrary: s) (simp_all add: assms)

lemma sample_joystick_eq:
  "sample_joystick inp st =
     (scaled_radius scaling' (in_joy inp) (polls st),
      st\<lparr>polls := Suc (polls st), ticks := Suc (ticks st),
         x_trial := x_trial st @ [fst (in_joy inp (polls st))],
         y_trial := y_trial st @ [- snd (in_joy inp (polls st))],
         t_trial := t_trial st @ [in_clk inp (ticks st)],
         cursor_pos := pol2cart (scaled_theta scaling' (in_joy inp) (polls st))
            (scaled_radius scaling' (in_joy inp) (polls st))\<rparr>)"
  by (simp add: sample_joystick_def Let_def getXY_def getTime_def scaled_radius_def
      scaled_theta_def split_beta)

lemma go_frame_eq:
  "go_frame inp go n st =
     (let r = scaled_radius scaling' (in_joy inp) (polls st);
          cp = pol2cart (scaled_theta scaling' (in_joy inp) (polls st)) r;
          tg = (if n = py_int (in_framerate_r inp * ssd st) \<and> go = 0
                then (target st)\<lparr>fillColor := Some ''red'', lineColor := ''red''\<rparr>
                else target st)
      in st\<lparr>polls := Suc (polls st), ticks := Suc (ticks st),
            x_trial := x_trial st @ [fst (in_joy inp (polls st))],
            y_trial := y_trial st @ [- snd (in_joy inp (polls st))],
            t_trial := t_trial st @ [in_clk inp (ticks st)],
            cursor_pos := cp, target := tg,
            start_mov := (if starting_radius' \<le> r \<and> r < hidden_radius' * (9 / 10)
                          then 1 else start_mov st),
            full_mov := (if starting_radius' \<le> r \<and> hidden_radius' * (9 / 10) \<le> r
                         then 1 else full_mov st),
            screen := screen st @
              [pending st @ [DrawTarget tg] @
               (if starting_radius' \<le> r \<and> r < hidden_radius' * (9 / 10) then []
                else [DrawCursor cp])],
            pending := []\<rparr>)"
  by (simp add: go_frame_def sample_joystick_eq Let_def flip_def draw_cursor_def
      draw_target_def)

lemma plain_frame_eq:
  "fixation_frame inp n st =
     st\<lparr>polls := Suc (polls st), ticks := Suc (ticks st),
        x_trial := x_trial st @ [fst (in_joy inp (polls st))],
        y_trial := y_trial st @ [- snd (in_joy inp (polls st))],
        t_trial := t_trial st @ [in_clk inp (ticks st)],
        cursor_pos := pol2cart (scaled_theta scaling' (in_joy inp) (polls st))
            (scaled_radius scaling' (in_joy inp) (polls st)),
        screen := screen st @ [pending st @ [DrawTarget (target st)]],
        pending := []\<rparr>"
  "post_go_frame inp n st = fixation_frame inp n st"
  "ready_frame inp n st =
     st\<lparr>polls := Suc (polls st), ticks := Suc (ticks st),
        x_trial := x_trial st @ [fst (in_joy inp (polls st))],
        y_trial := y_trial st @ [- snd (in_joy inp (polls st))],
        t_trial := t_trial st @ [in_clk inp (ticks st)],
        cursor_pos := pol2cart (scaled_theta scaling' (in_joy inp) (polls st))
            (scaled_radius scaling' (in_joy inp) (polls st)),
        screen := screen st @ [pending st @
           [DrawCursor (pol2cart (scaled_theta scaling' (in_joy inp) (polls st))
            (scaled_radius scaling' (in_joy inp) (polls st)))]],
        pending := []\<rparr>"
  by (simp_all add: fixation_frame_def post_go_frame_def ready_frame_def sample_joystick_eq
      Let_def flip_def draw_cursor_def draw_target_def)

subsection \<open>The GO loop of the stop-signal script\<close>

lemma fold_counts:
  assumes "\<And>n s. f (F n s) = Suc (f s)"
  shows "f (fold F fs s) = f s + length fs"
  by (induction fs arbitrary: s) (simp_all add: assms)

lemma length_frames [simp]: "length (frames inp d) = nat (py_int (in_framerate_r inp * d))"
  by (simp add: frames_def)

lemma length_phase_frames [simp]:
  "length (phase_frames su d) = nat (py_int (framerate_r su * d))"
  by (simp add: phase_frames_def)

lemma go_loop_Nil [simp]: "go_loop inp go [] st = st"
  by (simp add: go_loop_def)

lemma go_loop_Cons [simp]:
  "go_loop inp go (f # fs) st = go_loop inp go fs (go_frame inp go f st)"
  by (simp add: go_loop_def)

lemma go_loop_append:
  "go_loop inp go (fs @ gs) st = go_loop inp go gs (go_loop inp go fs st)"
  by (simp add: go_loop_def)

lemma go_frame_kept [simp]:
  "ssd (go_frame inp go n st) = ssd st"
  "data_dict (go_frame inp go n st) = data_dict st"
  "csv_writes (go_frame inp go n st) = csv_writes st"
  "npy_writes (go_frame inp go n st) = npy_writes st"
  "subj_ID (go_frame inp go n st) = subj_ID st"
  "exp_fix_onset (go_frame inp go n st) = exp_fix_onset st"
  "exp_ready_onset (go_frame inp go n st) = exp_ready_onset st"
  "exp_go_onset (go_frame inp go n st) = exp_go_onset st"
  "polls (go_frame inp go n st) = Suc (polls st)"
  "ticks (go_frame inp go n st) = Suc (ticks st)"
  "pending (go_frame inp go n st) = []"
  "length (screen (go_frame inp go n st)) = Suc (length (screen st))"
  "x_trial (go_frame inp go n st) = x_trial st @ [fst (in_joy inp (polls st))]"
  "y_trial (go_frame inp go n st) = y_trial st @ [- snd (in_joy inp (polls st))]"
  "t_trial (go_frame inp go n st) = t_trial st @ [in_clk inp (ticks st)]"
  by (simp_all add: go_frame_eq Let_def)

lemma go_frame_start:
  "start_mov (go_frame inp go n st) =
     (if starting_radius' \<le> scaled_radius scaling' (in_joy inp) (polls st) \<and>
         scaled_radius scaling' (in_joy inp) (polls st) < hidden_radius' * (9 / 10)
      then 1 else start_mov st)"
  by (simp add: go_frame_eq Let_def)

lemma go_frame_full:
  "full_mov (go_frame inp go n st) =
     (if starting_radius' \<le> scaled_radius scaling' (in_joy inp) (polls st) \<and>
         hidden_radius' * (9 / 10) \<le> scaled_radius scaling' (in_joy inp) (polls st)
      then 1 else full_mov st)"
  by (simp add: go_frame_eq Let_def)

lemma go_frame_fill:
  "fillColor (target (go_frame inp go n st)) =
     (if n = py_int (in_framerate_r inp * ssd st) \<and> go = 0 then Some ''red''
      else fillColor (target st))"
  by (simp add: go_frame_eq Let_def)

lemma go_frame_screen:
  "screen (go_frame inp go n st) =
     screen st @
       [pending st @ [DrawTarget (target (go_frame inp go n st))] @
        (if starting_radius' \<le> scaled_radius scaling' (in_joy inp) (polls st) \<and>
            scaled_radius scaling' (in_joy inp) (polls st) < hidden_radius' * (9 / 10)
         then [] else [DrawCursor (cursor_pos (go_frame inp go n st))])]"
  by (simp add: go_frame_eq Let_def)

lemma go_loop_kept [simp]:
  "ssd (go_loop inp go fs st) = ssd st"
  "data_dict (go_loop inp go fs st) = data_dict st"
  "csv_writes (go_loop inp go fs st) = csv_writes st"
  "npy_writes (go_loop inp go fs st) = npy_writes st"
  "subj_ID (go_loop inp go fs st) = subj_ID st"
  "exp_fix_onset (go_loop inp go fs st) = exp_fix_onset st"
  "exp_ready_onset (go_loop inp go fs st) = exp_ready_onset st"
  "exp_go_onset (go_loop inp go fs st) = exp_go_onset st"
  unfolding go_loop_def by (rule fold_keeps, simp)+

lemma go_loop_counts [simp]:
  "polls (go_loop inp go fs st) = polls st + length fs"
  "ticks (go_loop inp go fs st) = ticks st + length fs"
  "length (screen (go_loop inp go fs st)) = length (screen st) + length fs"
  unfolding go_loop_def by (rule fold_counts, simp)+

lemma go_loop_x:
  "x_trial (go_loop inp go fs st) =
     x_trial st @ map (\<lambda>k. fst (in_joy inp k)) [polls st..<polls st + length fs]"
proof (induction fs arbitrary: st)
  case Nil
  then show ?case by simp
next
  case (Cons f fs)
  show ?case
    unfolding upt_shift by (simp add: Cons.IH)
qed

lemma go_loop_y:
  "y_trial (go_loop inp go fs st) =
     y_trial st @ map (\<lambda>k. - snd (in_joy inp k)) [polls st..<polls st + length fs]"
proof (induction fs arbitrary: st)
  case Nil
  then show ?case by simp
next
  case (Cons f fs)
  show ?case
    unfolding upt_shift by (simp add: Cons.IH)
qed

lemma go_loop_t:
  "t_trial (go_loop inp go fs st) =
     t_trial st @ map (in_clk inp) [ticks st..<ticks st + length fs]"
proof (induction fs arbitrary: st)
  case Nil
  then show ?case by simp
next
  case (Cons f fs)
  show ?case
    unfolding upt_shift by (simp add: Cons.IH)
qed

lemma go_loop_start:
  "start_mov (go_loop inp go fs st) =
     (if \<exists>k\<in>{polls st..<polls st + length fs}.
            starting_radius' \<le> scaled_radius scaling' (in_joy inp) k \<and>
            scaled_radius scaling' (in_joy inp) k < hidden_radius' * (9 / 10)
      then 1 else start_mov st)"
proof (induction fs arbitrary: st)
  case Nil
  then show ?case by simp
next
  case (Cons f fs)
  have split: "{polls st..<polls st + length (f # fs)} =
      insert (polls st) {Suc (polls st)..<Suc (polls st) + length fs}"
    by auto
  show ?case
    unfolding split by (auto simp: Cons.IH go_frame_start)
qed

lemma go_loop_full:
  "full_mov (go_loop inp go fs st) =
     (if \<exists>k\<in>{polls st..<polls st + length fs}.
            starting_radius' \<le> scaled_radius scaling' (in_joy inp) k \<and>
            hidden_radius' * (9 / 10) \<le> scaled_radius scaling' (in_joy inp) k
      then 1 else full_mov st)"
proof (induction fs arbitrary: st)
  case Nil
  then show ?case by simp
next
  case (Cons f fs)
  have split: "{polls st..<polls st + length (f # fs)} =
      insert (polls st) {Suc (polls st)..<Suc (polls st) + length fs}"
    by auto
  show ?case
    unfolding split by (auto simp: Cons.IH go_frame_full)
qed

lemma go_loop_fill:
  "fillColor (target (go_loop inp go fs st)) =
     (if go = 0 \<and> py_int (in_framerate_r inp * ssd st) \<in> set fs then Some ''red''
      else fillColor (target st))"
  by (induction fs arbitrary: st) (auto simp: go_frame_fill)





subsection \<open>The other phases of the stop-signal script\<close>

lemma plain_frame_kept [simp]:
  "ssd (fixation_frame inp n st) = ssd st"
  "data_dict (fixation_frame inp n st) = data_dict st"
  "csv_writes (fixation_frame inp n st) = csv_writes st"
  "npy_writes (fixation_frame inp n st) = npy_writes st"
  "subj_ID (fixation_frame inp n st) = subj_ID st"
  "start_mov (fixation_frame inp n st) = start_mov st"
  "full_mov (fixation_frame inp n st) = full_mov st"
  "polls (fixation_frame inp n st) = Suc (polls st)"
  "ticks (fixation_frame inp n st) = Suc (ticks st)"
  "pending (fixation_frame inp n st) = []"
  "length (x_trial (fixation_frame inp n st)) = Suc (length (x_trial st))"
  "length (y_trial (fixation_frame inp n st)) = Suc (length (y_trial st))"
  "length (t_trial (fixation_frame inp n st)) = Suc (length (t_trial st))"
  "ssd (ready_frame inp n st) = ssd st"
  "data_dict (ready_frame inp n st) = data_dict st"
  "csv_writes (ready_frame inp n st) = csv_writes st"
  "npy_writes (ready_frame inp n st) = npy_writes st"
  "subj_ID (ready_frame inp n st) = subj_ID st"
  "start_mov (ready_frame inp n st) = start_mov st"
  "full_mov (ready_frame inp n st) = full_mov st"
  "polls (ready_frame inp n st) = Suc (polls st)"
  "ticks (ready_frame inp n st) = Suc (ticks st)"
  "pending (ready_frame inp n st) = []"
  "length (x_trial (ready_frame inp n st)) = Suc (length (x_trial st))"
  "length (y_trial (ready_frame inp n st)) = Suc (length (y_trial st))"
  "length (t_trial (ready_frame inp n st)) = Suc (length (t_trial st))"
  by (simp_all add: plain_frame_eq)

lemma fixation_phase_kept [simp]:
  "ssd (fixation_phase inp st) = ssd st"
  "data_dict (fixation_phase inp st) = data_dict st"
  "csv_writes (fixation_phase inp st) = csv_writes st"
  "npy_writes (fixation_phase inp st) = npy_writes st"
  "subj_ID (fixation_phase inp st) = subj_ID st"
  "start_mov (fixation_phase inp st) = start_mov st"
  "full_mov (fixation_phase inp st) = full_mov st"
  by (simp_all add: fixation_phase_def Let_def getTime_def fold_keeps)

lemma ready_phase_kept [simp]:
  "ssd (ready_phase inp st) = ssd st"
  "data_dict (ready_phase inp st) = data_dict st"
  "csv_writes (ready_phase inp st) = csv_writes st"
  "npy_writes (ready_phase inp st) = npy_writes st"
  "subj_ID (ready_phase inp st) = subj_ID st"
  "start_mov (ready_phase inp st) = start_mov st"
  "full_mov (ready_phase inp st) = full_mov st"
  by (simp_all add: ready_phase_def Let_def getTime_def fold_keeps)

lemma post_go_phase_kept [simp]:
  "ssd (post_go_phase inp st) = ssd st"
  "data_dict (post_go_phase inp st) = data_dict st"
  "csv_writes (post_go_phase inp st) = csv_writes st"
  "npy_writes (post_go_phase inp st) = npy_writes st"
  "subj_ID (post_go_phase inp st) = subj_ID st"
  "start_mov (post_go_phase inp st) = start_mov st"
  "full_mov (post_go_phase inp st) = full_mov st"
  by (simp_all add: post_go_phase_def Let_def getTime_def fold_keeps plain_frame_eq(2))



lemma post_go_phase_counts:
  "length (x_trial (post_go_phase inp st)) =
     length (x_trial st) + length (frames inp post_go_time')"
  "length (y_trial (post_go_phase inp st)) =
     length (y_trial st) + length (frames inp post_go_time')"
  "length (t_trial (post_go_phase inp st)) =
     length (t_trial st) + length (frames inp post_go_time')"
  "polls (post_go_phase inp st) = polls st + length (frames inp post_go_time')"
  by (simp_all add: post_go_phase_def Let_def getTime_def plain_frame_eq(2)
      fold_counts [where f = "\<lambda>s. length (x_trial s)"]
      fold_counts [where f = "\<lambda>s. length (y_trial s)"]
      fold_counts [where f = "\<lambda>s. length (t_trial s)"]
      fold_counts [where f = polls])

lemma go_cue_kept [simp]:
  "ssd (go_cue inp angle st) = ssd st"
  "data_dict (go_cue inp angle st) = data_dict st"
  "csv_writes (go_cue inp angle st) = csv_writes st"
  "npy_writes (go_cue inp angle st) = npy_writes st"
  "subj_ID (go_cue inp angle st) = subj_ID st"
  "start_mov (go_cue inp angle st) = start_mov st"
  "full_mov (go_cue inp angle st) = full_mov st"
  "polls (go_cue inp angle st) = polls st"
  "pending (go_cue inp angle st) = pending st"
  "screen (go_cue inp angle st) = screen st"
  "x_trial (go_cue inp angle st) = x_trial st"
  "y_trial (go_cue inp angle st) = y_trial st"
  "t_trial (go_cue inp angle st) = t_trial st"
  "ticks (go_cue inp angle st) = Suc (ticks st)"
  "fillColor (target (go_cue inp angle st)) = Some ''green''"
  by (simp_all add: go_cue_def Let_def getTime_def)

lemma go_phase_kept [simp]:
  "ssd (go_phase inp angle go st) = ssd st"
  "data_dict (go_phase inp angle go st) = data_dict st"
  "csv_writes (go_phase inp angle go st) = csv_writes st"
  "npy_writes (go_phase inp angle go st) = npy_writes st"
  "subj_ID (go_phase inp angle go st) = subj_ID st"
  by (simp_all add: go_phase_def)

lemma reset_trial_kept [simp]:
  "ssd (reset_trial st) = ssd st"
  "data_dict (reset_trial st) = data_dict st"
  "csv_writes (reset_trial st) = csv_writes st"
  "npy_writes (reset_trial st) = npy_writes st"
  "subj_ID (reset_trial st) = subj_ID st"
  "start_mov (reset_trial st) = 0"
  "full_mov (reset_trial st) = 0"
  "x_trial (reset_trial st) = []"
  "y_trial (reset_trial st) = []"
  "t_trial (reset_trial st) = []"
  by (simp_all add: reset_trial_def)

lemma before_go_kept [simp]:
  "ssd (before_go inp st) = ssd st"
  "data_dict (before_go inp st) = data_dict st"
  "csv_writes (before_go inp st) = csv_writes st"
  "npy_writes (before_go inp st) = npy_writes st"
  "subj_ID (before_go inp st) = subj_ID st"
  "start_mov (before_go inp st) = 0"
  "full_mov (before_go inp st) = 0"
  by (simp_all add: before_go_def)

lemma iti_log_eq:
  "iti_log inp trial angle go st =
     (let r = trial_row trial angle go
                (st\<lparr>exp_iti_onset := in_clk inp (ticks st), ITI_time := in_uniform inp (nat trial)\<rparr>)
      in st\<lparr>ticks := Suc (ticks st), exp_iti_onset := in_clk inp (ticks st),
            ITI_time := in_uniform inp (nat trial),
            screen := screen st @ [pending st @ [DrawTarget (target st)]], pending := [],
            data_dict := data_dict st @ [r],
            csv_writes := csv_writes st @ [data_dict st @ [r]],
            npy_writes := npy_writes st @ [(trial, x_trial st, y_trial st, t_trial st)]\<rparr>)"
  by (simp add: iti_log_def Let_def getTime_def flip_def draw_target_def trial_row_def)

subsection \<open>The centring gate\<close>


lemma gate_radius_eq: "gate_radius sc joy e = scaled_radius sc joy (polls e)"
  by (simp add: gate_radius_def getXY_def scaled_radius_def Let_def split_beta)

lemma gate_prompt_polls [simp]: "polls (gate_prompt joy e) = Suc (polls e)"
  by (simp add: gate_prompt_def getXY_def flip_def draw_text_def)

lemma centre_gate_passes:
  "scaled_radius sc joy (polls e) < sr \<Longrightarrow> centre_gate sc sr joy e = Some (snd (getXY joy e))"
  by (subst centre_gate.simps) (simp add: gate_radius_eq)

lemma centre_gate_returns:
  "polls e \<le> k \<Longrightarrow> scaled_radius sc joy k < sr \<Longrightarrow> \<exists>e'. centre_gate sc sr joy e = Some e'"
proof (induction "k - polls e" arbitrary: e)
  case 0
  then have "polls e = k" by simp
  with 0 show ?case by (simp add: centre_gate_passes)
next
  case (Suc n)
  show ?case
  proof (cases "scaled_radius sc joy (polls e) < sr")
    case True
    then show ?thesis by (simp add: centre_gate_passes)
  next
    case False
    then have "polls e \<noteq> k" using Suc.prems by auto
    then have "n = k - polls (gate_prompt joy e)" "polls (gate_prompt joy e) \<le> k"
      using Suc.hyps(2) Suc.prems(1) by simp_all
    then have "\<exists>e'. centre_gate sc sr joy (gate_prompt joy e) = Some e'"
      using Suc.hyps(1) Suc.prems(2) by blast
    moreover have "centre_gate sc sr joy e = centre_gate sc sr joy (gate_prompt joy e)"
      using False by (subst centre_gate.simps) (simp add: gate_radius_eq)
    ultimately show ?thesis by simp
  qed
qed

lemma centre_gate_keeps:
  assumes "centre_gate sc sr joy e = Some e'"
    and "\<And>joy e. f (gate_prompt joy e) = f e"
    and "\<And>joy e. f (snd (getXY joy e)) = f e"
  shows "f e' = f e"
proof (rule centre_gate.raw_induct [where P = "\<lambda>sc sr joy e y. f y = f e", OF _ assms(1)])
  fix g sc sr joy e y
  assume ih: "\<And>sr joy e b y. g sr joy e b = Some y \<Longrightarrow> f y = f b"
    and eq: "(if sr \<le> gate_radius sc joy e then g sc sr joy (gate_prompt joy e)
              else Some (snd (getXY joy e))) = Some y"
  show "f y = f e"
  proof (cases "sr \<le> gate_radius sc joy e")
    case True
    with eq have "g sc sr joy (gate_prompt joy e) = Some y" by simp
    then have "f y = f (gate_prompt joy e)" by (rule ih)
    then show ?thesis by (simp add: assms(2))
  next
    case False
    with eq have "y = snd (getXY joy e)" by simp
    then show ?thesis by (simp add: assms(3))
  qed
qed

lemma centre_gate_pilot:
  assumes "centre_gate sc sr joy (flip (draw_target st)) = Some g"
  shows "ssd g = ssd st" "data_dict g = data_dict st" "csv_writes g = csv_writes st"
    "npy_writes g = npy_writes st" "subj_ID g = subj_ID st"
proof -
  show "ssd g = ssd st"
    using centre_gate_keeps [OF assms, of ssd]
    by (simp add: gate_prompt_def getXY_def flip_def draw_text_def draw_target_def)
  show "data_dict g = data_dict st"
    using centre_gate_keeps [OF assms, of data_dict]
    by (simp add: gate_prompt_def getXY_def flip_def draw_text_def draw_target_def)
  show "csv_writes g = csv_writes st"
    using centre_gate_keeps [OF assms, of csv_writes]
    by (simp add: gate_prompt_def getXY_def flip_def draw_text_def draw_target_def)
  show "npy_writes g = npy_writes st"
    using centre_gate_keeps [OF assms, of npy_writes]
    by (simp add: gate_prompt_def getXY_def flip_def draw_text_def draw_target_def)
  show "subj_ID g = subj_ID st"
    using centre_gate_keeps [OF assms, of subj_ID]
    by (simp add: gate_prompt_def getXY_def flip_def draw_text_def draw_target_def)
qed

subsection \<open>A trial of the stop-signal script\<close>

lemma pilot_trial_Inr:
  assumes "pilot_trial inp trial st = Some (Inr st')"
  obtains g angle go where
    "centre_gate scaling' starting_radius' (in_joy inp) (flip (draw_target st)) = Some g"
    "py_index (angle_list inp) trial = Inr angle"
    "py_index (go_list inp) trial = Inr go"
    "st' = staircase_update go (iti_log inp trial angle go
             (post_go_phase inp (go_phase inp angle go (before_go inp g))))"
  using assms
  by (auto simp: pilot_trial_def after_gate_def split: option.splits sum.splits)

lemma pilot_trial_effect:
  assumes "pilot_trial inp trial st = Some (Inr st')"
  shows "\<exists>r. data_dict st' = data_dict st @ [r] \<and> col_trial r = trial \<and>
           col_SSD r = ssd st \<and> col_full_mov r = full_mov st' \<and>
           col_start_mov r = start_mov st' \<and>
           py_index (go_list inp) trial = Inr (col_GO_Stop r) \<and>
           csv_writes st' = csv_writes st @ [data_dict st'] \<and>
           npy_writes st' = npy_writes st @ [(trial, x_trial st', y_trial st', t_trial st')] \<and>
           ssd st' = staircase (col_GO_Stop r) (col_full_mov r) (ssd st)"
proof -
  obtain g angle go where g:
    "centre_gate scaling' starting_radius' (in_joy inp) (flip (draw_target st)) = Some g"
    and a: "py_index (angle_list inp) trial = Inr angle"
    and b: "py_index (go_list inp) trial = Inr go"
    and st': "st' = staircase_update go (iti_log inp trial angle go
             (post_go_phase inp (go_phase inp angle go (before_go inp g))))"
    using assms by (rule pilot_trial_Inr)
  note kept = centre_gate_pilot [OF g]
  show ?thesis
    unfolding st' staircase_update_def iti_log_eq Let_def
    by (simp add: kept b trial_row_def)
qed

subsection \<open>What the phase runner returns\<close>

lemma run_phase_parts:
  "res_onset (run_phase su joy clk d p nm g e) = clk (ticks e)"
  "res_x (run_phase su joy clk d p nm g e) =
     map (\<lambda>k. fst (joy k)) [polls e..<polls e + nat (py_int (framerate_r su * d))]"
  "res_y (run_phase su joy clk d p nm g e) =
     map (\<lambda>k. - snd (joy k)) [polls e..<polls e + nat (py_int (framerate_r su * d))]"
  "res_t (run_phase su joy clk d p nm g e) =
     map clk [Suc (ticks e)..<Suc (ticks e) + nat (py_int (framerate_r su * d))]"
  "polls (snd (run_phase su joy clk d p nm g e)) = polls e + nat (py_int (framerate_r su * d))"
  by (simp_all add: run_phase_eq Let_def res_onset_def res_x_def res_y_def res_t_def
      frame_loop_x frame_loop_y frame_loop_t)

lemma run_phase_flags:
  "res_start (run_phase su joy clk d p nm g e) =
     (if g \<and> (\<exists>k\<in>{polls e..<polls e + nat (py_int (framerate_r su * d))}.
            starting_radius su \<le> scaled_radius (scaling su) joy k \<and>
            scaled_radius (scaling su) joy k < hidden_radius su * (9 / 10))
      then 1 else 0)"
  "res_full (run_phase su joy clk d p nm g e) =
     (if g \<and> (\<exists>k\<in>{polls e..<polls e + nat (py_int (framerate_r su * d))}.
            starting_radius su \<le> scaled_radius (scaling su) joy k \<and>
            hidden_radius su * (9 / 10) \<le> scaled_radius (scaling su) joy k)
      then 1 else 0)"
  by (simp_all add: run_phase_eq Let_def res_start_def res_full_def frame_loop_start
      frame_loop_full)

lemma run_phase_result:
  "fst (run_phase su joy clk d p nm g e) =
     (res_onset (run_phase su joy clk d p nm g e), res_x (run_phase su joy clk d p nm g e),
      res_y (run_phase su joy clk d p nm g e), res_t (run_phase su joy clk d p nm g e),
      res_start (run_phase su joy clk d p nm g e), res_full (run_phase su joy clk d p nm g e))"
  by (simp add: res_onset_def res_x_def res_y_def res_t_def res_start_def res_full_def)

text \<open>
  C7. The trace that a phase records is made of the joystick readings as they come,
  without the scaling and without the perturbation: for any two perturbation angles the
  phase returns the same onset, the same trace and the same flags. The perturbation is
  added to the angle from which the cursor position of a frame is computed, and only there.
\<close>

theorem trace_independent_of_perturbation:
  "fst (run_phase su joy clk d p1 nm g e) = fst (run_phase su joy clk d p2 nm g e) \<and>
   res_x (run_phase su joy clk d p1 nm g e) =
     map (\<lambda>k. fst (joy k)) [polls e..<polls e + nat (py_int (framerate_r su * d))] \<and>
   res_y (run_phase su joy clk d p1 nm g e) =
     map (\<lambda>k. - snd (joy k)) [polls e..<polls e + nat (py_int (framerate_r su * d))] \<and>
   res_t (run_phase su joy clk d p1 nm g e) =
     map clk [Suc (ticks e)..<Suc (ticks e) + nat (py_int (framerate_r su * d))] \<and>
   cursor_pos (snd (phase_frame su joy clk p1 nm g (v, e))) =
     pol2cart (scaled_theta (scaling su) joy (polls e) + p1)
       (scaled_radius (scaling su) joy (polls e))"
proof -
  have "fst (run_phase su joy clk d p1 nm g e) = fst (run_phase su joy clk d p2 nm g e)"
    by (simp only: run_phase_result run_phase_parts run_phase_flags)
  then show ?thesis
    by (simp add: run_phase_parts phase_frame_cursor_pos)
qed

subsection \<open>The number of frames of a phase\<close>

lemma go_phase_counts:
  "length (x_trial (go_phase inp angle go st)) = length (x_trial st) + length (frames inp go_time')"
  "length (y_trial (go_phase inp angle go st)) = length (y_trial st) + length (frames inp go_time')"
  "length (t_trial (go_phase inp angle go st)) = length (t_trial st) + length (frames inp go_time')"
  "polls (go_phase inp angle go st) = polls st + length (frames inp go_time')"
  by (simp_all add: go_phase_def go_loop_x go_loop_y go_loop_t)




subsection \<open>The staircase\<close>

lemma staircase_run_Nil [simp]: "staircase_run [] s = s"
  by (simp add: staircase_run_def)

lemma staircase_run_Cons [simp]:
  "staircase_run ((go, fm) # os) s = staircase_run os (staircase go fm s)"
  by (simp add: staircase_run_def)



subsection \<open>The trial loop of the stop-signal script\<close>

lemma staircase_run_append:
  "staircase_run (os @ ps) s = staircase_run ps (staircase_run os s)"
  by (simp add: staircase_run_def)

lemma trial_loop_rows:
  assumes "trial_loop inp ts st = Some (Inr st')"
  shows "\<exists>rows. data_dict st' = data_dict st @ rows \<and>
           (\<forall>i<length rows. col_SSD (rows ! i) =
               staircase_run (map outcome (take i rows)) (ssd st)) \<and>
           ssd st' = staircase_run (map outcome rows) (ssd st)"
  using assms
proof (induction ts arbitrary: st)
  case Nil
  then show ?case by simp
next
  case (Cons t ts)
  show ?case
  proof (cases "in_q inp (nat t)")
    case True
    with Cons.prems have "st' = st" by simp
    then show ?thesis by simp
  next
    case False
    with Cons.prems obtain st1 where
      one: "pilot_trial inp t st = Some (Inr st1)" and
      rest: "trial_loop inp ts st1 = Some (Inr st')"
      by (auto split: option.splits sum.splits)
    obtain r where r: "data_dict st1 = data_dict st @ [r]" "col_SSD r = ssd st"
      "ssd st1 = staircase (col_GO_Stop r) (col_full_mov r) (ssd st)"
      using pilot_trial_effect [OF one] by blast
    obtain rows where rows: "data_dict st' = data_dict st1 @ rows"
      "\<forall>i<length rows. col_SSD (rows ! i) =
          staircase_run (map outcome (take i rows)) (ssd st1)"
      "ssd st' = staircase_run (map outcome rows) (ssd st1)"
      using Cons.IH [OF rest] by blast
    have "data_dict st' = data_dict st @ (r # rows)"
      by (simp add: rows(1) r(1))
    moreover have "col_SSD ((r # rows) ! i) =
        staircase_run (map outcome (take i (r # rows))) (ssd st)"
      if "i < length (r # rows)" for i
    proof (cases i)
      case 0
      then show ?thesis by (simp add: r(2))
    next
      case (Suc j)
      with that have "j < length rows" by simp
      with rows(2) have "col_SSD (rows ! j) =
          staircase_run (map outcome (take j rows)) (ssd st1)"
        by blast
      then show ?thesis
        by (simp add: Suc r(3) outcome_def)
    qed
    moreover have "ssd st' = staircase_run (map outcome (r # rows)) (ssd st)"
      by (simp add: rows(3) r(3) outcome_def)
    ultimately show ?thesis by blast
  qed
qed

lemma trial_loop_new_rows:
  assumes "trial_loop inp ts st = Some (Inr st')"
  shows "data_dict st' = data_dict st @ new_rows st st'"
    "\<forall>i<length (new_rows st st'). col_SSD (new_rows st st' ! i) =
        staircase_run (map outcome (take i (new_rows st st'))) (ssd st)"
    "ssd st' = staircase_run (map outcome (new_rows st st')) (ssd st)"
proof -
  obtain rows where rows: "data_dict st' = data_dict st @ rows"
    "\<forall>i<length rows. col_SSD (rows ! i) = staircase_run (map outcome (take i rows)) (ssd st)"
    "ssd st' = staircase_run (map outcome rows) (ssd st)"
    using trial_loop_rows [OF assms] by blast
  have eq: "new_rows st st' = rows"
    by (simp add: new_rows_def rows(1))
  show "data_dict st' = data_dict st @ new_rows st st'"
    "\<forall>i<length (new_rows st st'). col_SSD (new_rows st st' ! i) =
        staircase_run (map outcome (take i (new_rows st st'))) (ssd st)"
    "ssd st' = staircase_run (map outcome (new_rows st st')) (ssd st)"
    unfolding eq using rows by blast+
qed

subsection \<open>The example inputs\<close>

lemma hypot_0 [simp]: "hypot x 0 = \<bar>x\<bar>"
  by (simp add: hypot_def)

lemma scaled_radius_still [simp]: "scaled_radius sc still k = 0"
  by (simp add: scaled_radius_def still_def cart2pol_def)

lemma example_inputs_simps [simp]:
  "in_joy (example_inputs joy fr) = joy"
  "in_clk (example_inputs joy fr) = seconds"
  "in_framerate_r (example_inputs joy fr) = fr"
  "in_q (example_inputs joy fr) k = False"
  "angle_list (example_inputs joy fr) = [0, 0, 0]"
  "go_list (example_inputs joy fr) = [0, 1, 0]"
  by (simp_all add: example_inputs_def)

lemma still_gate: "centre_gate scaling' starting_radius' still e = Some (snd (getXY still e))"
  by (rule centre_gate_passes) (simp add: starting_radius'_def)

lemma still_trial_returns:
  "t \<in> {0, 1, 2} \<Longrightarrow> \<exists>st'. pilot_trial (example_inputs still fr) t st = Some (Inr st')"
  by (auto simp: pilot_trial_def after_gate_def still_gate py_index_def)

lemma still_loop_returns:
  "set ts \<subseteq> {0, 1, 2} \<Longrightarrow> \<exists>st'. trial_loop (example_inputs still fr) ts st = Some (Inr st')"
proof (induction ts arbitrary: st)
  case Nil
  then show ?case by simp
next
  case (Cons t ts)
  then have "t \<in> {0, 1, 2}" by simp
  then obtain st1 where "pilot_trial (example_inputs still fr) t st = Some (Inr st1)"
    using still_trial_returns by blast
  moreover obtain st' where "trial_loop (example_inputs still fr) ts st1 = Some (Inr st')"
    using Cons by fastforce
  ultimately show ?case by simp
qed

lemma iti_log_flags [simp]:
  "full_mov (iti_log inp trial angle go st) = full_mov st"
  "start_mov (iti_log inp trial angle go st) = start_mov st"
  "ssd (iti_log inp trial angle go st) = ssd st"
  by (simp_all add: iti_log_eq Let_def)

lemma staircase_update_flags [simp]:
  "full_mov (staircase_update go st) = full_mov st"
  "start_mov (staircase_update go st) = start_mov st"
  "data_dict (staircase_update go st) = data_dict st"
  by (simp_all add: staircase_update_def)

lemma pilot_trial_flags:
  assumes "pilot_trial inp trial st = Some (Inr st')"
  shows "full_mov st' =
     (if \<exists>k\<in>{polls st' - length (frames inp post_go_time') - length (frames inp go_time')..<
               polls st' - length (frames inp post_go_time')}.
            starting_radius' \<le> scaled_radius scaling' (in_joy inp) k \<and>
            hidden_radius' * (9 / 10) \<le> scaled_radius scaling' (in_joy inp) k
      then 1 else 0)"
proof -
  obtain g angle go where
    st': "st' = staircase_update go (iti_log inp trial angle go
             (post_go_phase inp (go_phase inp angle go (before_go inp g))))"
    using assms by (rule pilot_trial_Inr)
  have p: "polls st' = polls (before_go inp g) + length (frames inp go_time') +
      length (frames inp post_go_time')"
    unfolding st' by (simp add: staircase_update_def iti_log_eq Let_def post_go_phase_counts
        go_phase_counts del: length_frames)
  show ?thesis
    unfolding p unfolding st'
    by (simp add: go_phase_def go_loop_full del: length_frames)
qed

lemma still_trial_full:
  "pilot_trial (example_inputs still fr) t st = Some (Inr st') \<Longrightarrow> full_mov st' = 0"
  by (simp add: pilot_trial_flags starting_radius'_def)

subsection \<open>The staircase controller\<close>

lemma pilot0_ssd [simp]: "ssd (pilot0 x) = x"
  by (simp add: pilot0_def)



subsection \<open>The record of a stop-signal trial\<close>

lemma trial_loop_next_row:
  assumes "trial_loop inp ts st = Some (Inr st')" and "Suc i < length (new_rows st st')"
  shows "col_SSD (new_rows st st' ! Suc i) =
     staircase (col_GO_Stop (new_rows st st' ! i)) (col_full_mov (new_rows st st' ! i))
       (col_SSD (new_rows st st' ! i))"
proof -
  have i: "i < length (new_rows st st')"
    using assms(2) by simp
  have "col_SSD (new_rows st st' ! Suc i) =
      staircase_run (map outcome (take (Suc i) (new_rows st st'))) (ssd st)"
    using trial_loop_new_rows(2) [OF assms(1)] assms(2) by blast
  also have "\<dots> = staircase_run [outcome (new_rows st st' ! i)]
      (staircase_run (map outcome (take i (new_rows st st'))) (ssd st))"
    by (simp add: take_Suc_conv_app_nth [OF i] staircase_run_append)
  also have "staircase_run (map outcome (take i (new_rows st st'))) (ssd st) =
      col_SSD (new_rows st st' ! i)"
    using trial_loop_new_rows(2) [OF assms(1)] i by simp
  finally show ?thesis
    by (simp add: outcome_def)
qed

lemma trial_loop_first_row:
  assumes "trial_loop inp ts st = Some (Inr st')" and "new_rows st st' \<noteq> []"
  shows "col_SSD (new_rows st st' ! 0) = ssd st"
  using trial_loop_new_rows(2) [OF assms(1)] assms(2) by fastforce

lemma pilot_trial_record:
  assumes "pilot_trial inp trial st = Some (Inr st')"
  shows "data_dict st' = data_dict st @ [last (data_dict st')] \<and>
      col_trial (last (data_dict st')) = trial \<and>
      col_SSD (last (data_dict st')) = ssd st \<and>
      csv_writes st' = csv_writes st @ [data_dict st'] \<and>
      npy_writes st' = npy_writes st @ [(trial, x_trial st', y_trial st', t_trial st')] \<and>
      ssd st' = staircase (col_GO_Stop (last (data_dict st')))
                  (col_full_mov (last (data_dict st'))) (ssd st)"
proof -
  obtain r :: row where r: "data_dict st' = data_dict st @ [r]" "col_trial r = trial"
    "col_SSD r = ssd st" "csv_writes st' = csv_writes st @ [data_dict st']"
    "npy_writes st' = npy_writes st @ [(trial, x_trial st', y_trial st', t_trial st')]"
    "ssd st' = staircase (col_GO_Stop r) (col_full_mov r) (ssd st)"
    using pilot_trial_effect [OF assms] by blast
  have "last (data_dict st') = r"
    by (simp add: r(1))
  then show ?thesis
    using r by simp
qed

text \<open>
  C10. The row that a trial of the stop-signal script appends, and the table and trace it
  writes, carry the delay the trial started with, which is the delay every frame of its GO
  loop reads; the staircase changes the delay after both files are written. In the rows of
  a run, the delay of a row is the staircase applied to the delay and the outcome of the
  row before it, and the first row has the delay the run started with.
\<close>

theorem record_ssd_before_update:
  "(pilot_trial inp trial st = Some (Inr st') \<longrightarrow>
      data_dict st' = data_dict st @ [last (data_dict st')] \<and>
      col_trial (last (data_dict st')) = trial \<and>
      col_SSD (last (data_dict st')) = ssd st \<and>
      csv_writes st' = csv_writes st @ [data_dict st'] \<and>
      npy_writes st' = npy_writes st @ [(trial, x_trial st', y_trial st', t_trial st')] \<and>
      ssd st' = staircase (col_GO_Stop (last (data_dict st')))
                  (col_full_mov (last (data_dict st'))) (ssd st)) \<and>
   (centre_gate scaling' starting_radius' (in_joy inp) (flip (draw_target st)) = Some g \<longrightarrow>
      ssd (before_go inp g) = ssd st \<and>
      ssd (go_loop inp go fs (go_cue inp angle (before_go inp g))) = ssd st) \<and>
   (trial_loop inp ts st = Some (Inr st2) \<longrightarrow>
      (new_rows st st2 \<noteq> [] \<longrightarrow> col_SSD (new_rows st st2 ! 0) = ssd st) \<and>
      (\<forall>i. Suc i < length (new_rows st st2) \<longrightarrow>
         col_SSD (new_rows st st2 ! Suc i) =
           staircase (col_GO_Stop (new_rows st st2 ! i)) (col_full_mov (new_rows st st2 ! i))
             (col_SSD (new_rows st st2 ! i))))"
proof (intro conjI impI allI)
  assume "centre_gate scaling' starting_radius' (in_joy inp) (flip (draw_target st)) = Some g"
  then have "ssd g = ssd st"
    by (rule centre_gate_pilot)
  then show "ssd (before_go inp g) = ssd st"
    "ssd (go_loop inp go fs (go_cue inp angle (before_go inp g))) = ssd st"
    by simp_all
next
  assume "trial_loop inp ts st = Some (Inr st2)" "new_rows st st2 \<noteq> []"
  then show "col_SSD (new_rows st st2 ! 0) = ssd st"
    by (rule trial_loop_first_row)
next
  fix i
  assume "trial_loop inp ts st = Some (Inr st2)" "Suc i < length (new_rows st st2)"
  then show "col_SSD (new_rows st st2 ! Suc i) =
           staircase (col_GO_Stop (new_rows st st2 ! i)) (col_full_mov (new_rows st st2 ! i))
             (col_SSD (new_rows st st2 ! i))"
    by (rule trial_loop_next_row)
qed (use pilot_trial_record in blast)+

theorem record_ssd_before_update_witness:
  "(case pilot_trial (example_inputs still 4) 0 (pilot0 ssd_init) of
      Some (Inr st') \<Rightarrow>
        col_SSD (last (data_dict st')) = 2 / 10 \<and> ssd st' = 25 / 100 \<and>
        csv_writes st' = [data_dict st']
    | _ \<Rightarrow> False) \<and>
   (case centre_gate scaling' starting_radius' still (flip (draw_target (pilot0 ssd_init))) of
      Some g \<Rightarrow> ssd (before_go (example_inputs still 4) g) = 2 / 10
    | None \<Rightarrow> False) \<and>
   (case trial_loop (example_inputs still 4) [0, 1] (pilot0 ssd_init) of
      Some (Inr st2) \<Rightarrow>
        length (new_rows (pilot0 ssd_init) st2) = 2 \<and>
        col_SSD (new_rows (pilot0 ssd_init) st2 ! 0) = 2 / 10 \<and>
        col_SSD (new_rows (pilot0 ssd_init) st2 ! Suc 0) = 25 / 100
    | _ \<Rightarrow> False)"
proof -
  let ?inp = "example_inputs still 4"
  let ?p = "pilot0 ssd_init"
  obtain st2 where run: "trial_loop ?inp [0, 1] ?p = Some (Inr st2)"
    using still_loop_returns [of "[0, 1]" 4 ?p] by auto
  obtain s1 where t0: "pilot_trial ?inp 0 ?p = Some (Inr s1)"
    and t1: "pilot_trial ?inp 1 s1 = Some (Inr st2)"
    using run by (auto split: option.splits sum.splits)
  obtain g where g: "centre_gate scaling' starting_radius' (in_joy ?inp)
      (flip (draw_target ?p)) = Some g"
    using t0 by (rule pilot_trial_Inr)
  note thm0 = record_ssd_before_update [of ?inp 0 ?p s1 g 0 "[]" 0 "[0, 1]" st2]
  have one: "data_dict s1 = data_dict ?p @ [last (data_dict s1)]"
    "col_SSD (last (data_dict s1)) = ssd ?p"
    "csv_writes s1 = csv_writes ?p @ [data_dict s1]"
    "ssd s1 = staircase (col_GO_Stop (last (data_dict s1)))
        (col_full_mov (last (data_dict s1))) (ssd ?p)"
    using thm0 t0 by blast+
  have gate: "ssd (before_go ?inp g) = ssd ?p"
    using thm0 g by blast
  obtain r0 :: row where r0: "data_dict s1 = data_dict ?p @ [r0]"
    "py_index (go_list ?inp) 0 = Inr (col_GO_Stop r0)" "col_full_mov r0 = full_mov s1"
    using pilot_trial_effect [OF t0] by blast
  obtain r1 :: row where r1: "data_dict st2 = data_dict s1 @ [r1]"
    using pilot_trial_effect [OF t1] by blast
  have rows: "new_rows ?p st2 = [r0, r1]"
    by (simp add: new_rows_def r1 r0(1))
  have last0: "last (data_dict s1) = r0"
    by (simp add: r0(1))
  have out0: "col_GO_Stop r0 = 0" "col_full_mov r0 = 0"
    using r0(2) still_trial_full [OF t0] by (simp_all add: py_index_def r0(3))
  have first: "col_SSD (new_rows ?p st2 ! 0) = ssd ?p"
    using thm0 run rows by simp
  have "col_SSD (new_rows ?p st2 ! Suc 0) =
      staircase (col_GO_Stop (new_rows ?p st2 ! 0)) (col_full_mov (new_rows ?p st2 ! 0))
        (col_SSD (new_rows ?p st2 ! 0))"
    using thm0 run rows by simp
  then have "col_SSD (new_rows ?p st2 ! Suc 0) = staircase 0 0 (ssd ?p)"
    using first by (simp add: rows out0)
  then have second: "col_SSD (new_rows ?p st2 ! Suc 0) = 25 / 100"
    by (simp add: staircase_def ssd_init_def)
  have "col_SSD (last (data_dict s1)) = ssd_init \<and> ssd s1 = staircase 0 0 ssd_init \<and>
      csv_writes s1 = [data_dict s1]"
    using one(2,3,4) by (simp add: last0 out0 pilot0_def)
  then have a: "col_SSD (last (data_dict s1)) = 2 / 10 \<and> ssd s1 = 25 / 100 \<and>
      csv_writes s1 = [data_dict s1]"
    by (simp add: staircase_def ssd_init_def)
  have b: "ssd (before_go ?inp g) = 2 / 10"
    using gate by (simp add: ssd_init_def)
  have "length (new_rows ?p st2) = 2"
    by (simp add: rows)
  moreover have "col_SSD (new_rows ?p st2 ! 0) = 2 / 10"
    unfolding first by (simp add: ssd_init_def)
  ultimately have c: "length (new_rows ?p st2) = 2 \<and>
      col_SSD (new_rows ?p st2 ! 0) = 2 / 10 \<and>
      col_SSD (new_rows ?p st2 ! Suc 0) = 25 / 100"
    using second by blast
  have g': "centre_gate scaling' starting_radius' still (flip (draw_target ?p)) = Some g"
    using g by simp
  show ?thesis
    unfolding t0 g' run option.case sum.case using a b c by blast
qed

subsection \<open>The stop cue\<close>










subsection \<open>The movement flags of a GO frame\<close>

lemma phase_frame_go_near:
  assumes "scaled_radius (scaling su) joy (polls e) < starting_radius su"
  shows "tmp_start (fst (phase_frame su joy clk p ''go'' True (v, e))) = tmp_start v \<and>
     tmp_full (fst (phase_frame su joy clk p ''go'' True (v, e))) = tmp_full v \<and>
     (pending e = [] \<longrightarrow>
        cursor_shown (last (screen (snd (phase_frame su joy clk p ''go'' True (v, e))))))"
  using assms by (simp add: phase_frame_start phase_frame_full phase_frame_screen)

lemma phase_frame_go_zone:
  assumes "starting_radius su \<le> scaled_radius (scaling su) joy (polls e)"
    and "scaled_radius (scaling su) joy (polls e) < hidden_radius su * (9 / 10)"
  shows "tmp_start (fst (phase_frame su joy clk p ''go'' True (v, e))) = 1 \<and>
     tmp_full (fst (phase_frame su joy clk p ''go'' True (v, e))) = tmp_full v \<and>
     (pending e = [] \<longrightarrow>
        \<not> cursor_shown (last (screen (snd (phase_frame su joy clk p ''go'' True (v, e))))))"
  using assms by (simp add: phase_frame_start phase_frame_full phase_frame_screen)

lemma phase_frame_go_far:
  assumes "starting_radius su \<le> hidden_radius su * (9 / 10)"
    and "hidden_radius su * (9 / 10) \<le> scaled_radius (scaling su) joy (polls e)"
  shows "tmp_start (fst (phase_frame su joy clk p ''go'' True (v, e))) = tmp_start v \<and>
     tmp_full (fst (phase_frame su joy clk p ''go'' True (v, e))) = 1 \<and>
     (pending e = [] \<longrightarrow>
        cursor_shown (last (screen (snd (phase_frame su joy clk p ''go'' True (v, e))))))"
  using assms by (simp add: phase_frame_start phase_frame_full phase_frame_screen)

lemma run_phase_go_near:
  assumes "\<forall>k<nat (py_int (framerate_r su * d)).
      scaled_radius (scaling su) joy (polls e + k) < starting_radius su"
  shows "res_start (run_phase su joy clk d p ''go'' True e) = 0 \<and>
     res_full (run_phase su joy clk d p ''go'' True e) = 0"
proof -
  have "scaled_radius (scaling su) joy k < starting_radius su"
    if "k \<in> {polls e..<polls e + nat (py_int (framerate_r su * d))}" for k
  proof -
    from that have "k - polls e < nat (py_int (framerate_r su * d))" "polls e + (k - polls e) = k"
      by auto
    with assms show ?thesis by metis
  qed
  then have "\<not> (\<exists>k\<in>{polls e..<polls e + nat (py_int (framerate_r su * d))}.
      starting_radius su \<le> scaled_radius (scaling su) joy k \<and>
      scaled_radius (scaling su) joy k < hidden_radius su * (9 / 10))"
    "\<not> (\<exists>k\<in>{polls e..<polls e + nat (py_int (framerate_r su * d))}.
      starting_radius su \<le> scaled_radius (scaling su) joy k \<and>
      hidden_radius su * (9 / 10) \<le> scaled_radius (scaling su) joy k)"
    by (meson not_le)+
  then show ?thesis
    by (simp only: run_phase_flags simp_thms if_False)
qed

lemma run_phase_go_reach:
  assumes "i < nat (py_int (framerate_r su * d))"
    and "starting_radius su \<le> scaled_radius (scaling su) joy (polls e + i)"
    and "scaled_radius (scaling su) joy (polls e + i) < hidden_radius su * (9 / 10)"
    and "j < nat (py_int (framerate_r su * d))"
    and "hidden_radius su * (9 / 10) \<le> scaled_radius (scaling su) joy (polls e + j)"
  shows "res_start (run_phase su joy clk d p ''go'' True e) = 1 \<and>
     res_full (run_phase su joy clk d p ''go'' True e) = 1"
proof -
  have "polls e + i \<in> {polls e..<polls e + nat (py_int (framerate_r su * d))}"
    "polls e + j \<in> {polls e..<polls e + nat (py_int (framerate_r su * d))}"
    using assms(1,4) by simp_all
  moreover have "starting_radius su \<le> scaled_radius (scaling su) joy (polls e + j)"
    using assms(2,3,5) by linarith
  ultimately have "\<exists>k\<in>{polls e..<polls e + nat (py_int (framerate_r su * d))}.
      starting_radius su \<le> scaled_radius (scaling su) joy k \<and>
      scaled_radius (scaling su) joy k < hidden_radius su * (9 / 10)"
    "\<exists>k\<in>{polls e..<polls e + nat (py_int (framerate_r su * d))}.
      starting_radius su \<le> scaled_radius (scaling su) joy k \<and>
      hidden_radius su * (9 / 10) \<le> scaled_radius (scaling su) joy k"
    using assms(2,3,5) by blast+
  then show ?thesis
    by (simp add: run_phase_flags)
qed

lemma go_frame_near:
  assumes "scaled_radius scaling' (in_joy inp) (polls st) < starting_radius'"
  shows "start_mov (go_frame inp go n st) = start_mov st \<and>
     full_mov (go_frame inp go n st) = full_mov st \<and>
     (pending st = [] \<longrightarrow> cursor_shown (last (screen (go_frame inp go n st))))"
  using assms by (simp add: go_frame_start go_frame_full go_frame_screen)

lemma go_frame_zone:
  assumes "starting_radius' \<le> scaled_radius scaling' (in_joy inp) (polls st)"
    and "scaled_radius scaling' (in_joy inp) (polls st) < hidden_radius' * (9 / 10)"
  shows "start_mov (go_frame inp go n st) = 1 \<and>
     full_mov (go_frame inp go n st) = full_mov st \<and>
     (pending st = [] \<longrightarrow> \<not> cursor_shown (last (screen (go_frame inp go n st))))"
  using assms by (simp add: go_frame_start go_frame_full go_frame_screen)

lemma go_frame_far:
  assumes "hidden_radius' * (9 / 10) \<le> scaled_radius scaling' (in_joy inp) (polls st)"
  shows "start_mov (go_frame inp go n st) = start_mov st \<and>
     full_mov (go_frame inp go n st) = 1 \<and>
     (pending st = [] \<longrightarrow> cursor_shown (last (screen (go_frame inp go n st))))"
  using assms
  by (simp add: go_frame_start go_frame_full go_frame_screen starting_radius'_def
      hidden_radius'_def)

lemma go_phase_near:
  assumes "start_mov st = 0" "full_mov st = 0"
    and "\<forall>k<nat (py_int (in_framerate_r inp * go_time')).
      scaled_radius scaling' (in_joy inp) (polls st + k) < starting_radius'"
  shows "start_mov (go_phase inp angle go st) = 0 \<and> full_mov (go_phase inp angle go st) = 0"
proof -
  have "scaled_radius scaling' (in_joy inp) k < starting_radius'"
    if "k \<in> {polls st..<polls st + nat (py_int (in_framerate_r inp * go_time'))}" for k
  proof -
    from that have "k - polls st < nat (py_int (in_framerate_r inp * go_time'))"
      "polls st + (k - polls st) = k"
      by auto
    with assms(3) show ?thesis by metis
  qed
  then have "\<not> (\<exists>k\<in>{polls st..<polls st + nat (py_int (in_framerate_r inp * go_time'))}.
      starting_radius' \<le> scaled_radius scaling' (in_joy inp) k \<and>
      scaled_radius scaling' (in_joy inp) k < hidden_radius' * (9 / 10))"
    "\<not> (\<exists>k\<in>{polls st..<polls st + nat (py_int (in_framerate_r inp * go_time'))}.
      starting_radius' \<le> scaled_radius scaling' (in_joy inp) k \<and>
      hidden_radius' * (9 / 10) \<le> scaled_radius scaling' (in_joy inp) k)"
    by (meson not_le)+
  moreover have "polls (go_cue inp angle st) = polls st"
    "start_mov (go_cue inp angle st) = 0" "full_mov (go_cue inp angle st) = 0"
    using assms(1,2) by simp_all
  ultimately show ?thesis
    by (simp only: go_phase_def go_loop_start go_loop_full length_frames simp_thms if_False)
qed

lemma go_phase_reach:
  assumes "i < nat (py_int (in_framerate_r inp * go_time'))"
    and "starting_radius' \<le> scaled_radius scaling' (in_joy inp) (polls st + i)"
    and "scaled_radius scaling' (in_joy inp) (polls st + i) < hidden_radius' * (9 / 10)"
    and "j < nat (py_int (in_framerate_r inp * go_time'))"
    and "hidden_radius' * (9 / 10) \<le> scaled_radius scaling' (in_joy inp) (polls st + j)"
  shows "start_mov (go_phase inp angle go st) = 1 \<and> full_mov (go_phase inp angle go st) = 1"
proof -
  have "polls st + i \<in> {polls st..<polls st + nat (py_int (in_framerate_r inp * go_time'))}"
    "polls st + j \<in> {polls st..<polls st + nat (py_int (in_framerate_r inp * go_time'))}"
    using assms(1,4) by simp_all
  moreover have "starting_radius' \<le> scaled_radius scaling' (in_joy inp) (polls st + j)"
    using assms(2,3,5) by linarith
  ultimately have "\<exists>k\<in>{polls st..<polls st + nat (py_int (in_framerate_r inp * go_time'))}.
      starting_radius' \<le> scaled_radius scaling' (in_joy inp) k \<and>
      scaled_radius scaling' (in_joy inp) k < hidden_radius' * (9 / 10)"
    "\<exists>k\<in>{polls st..<polls st + nat (py_int (in_framerate_r inp * go_time'))}.
      starting_radius' \<le> scaled_radius scaling' (in_joy inp) k \<and>
      hidden_radius' * (9 / 10) \<le> scaled_radius scaling' (in_joy inp) k"
    using assms(2,3,5) by blast+
  then show ?thesis
    by (simp add: go_phase_def go_loop_start go_loop_full)
qed

lemma example_radius:
  "scaled_radius 12 hold k = 1 / 2"
  "scaled_radius 12 reach k = 1 / 2 + 3 * real k"
  by (simp_all add: scaled_radius_def cart2pol_def hold_def reach_def)

text \<open>
  C2. In a frame of the GO phase the flags follow the scaled radius: below the starting
  radius the cursor is drawn and no flag changes; from the starting radius to below 0.9
  times the hidden radius start_mov is set and the cursor is not drawn; from 0.9 times the
  hidden radius on the cursor is drawn and full_mov is set. The three cases are the
  branches of the code in its order, so the last one is stated for settings whose starting
  radius is not above 0.9 times the hidden radius, as in the stop-signal script (1 and
  10). A GO phase whose radius stays below the starting radius returns both flags unset;
  one with a frame in the middle zone and a frame at 0.9 times the hidden radius or beyond
  returns both flags set.
\<close>

theorem go_frame_movement_flags:
  "(scaled_radius (scaling su) joy (polls e) < starting_radius su \<longrightarrow>
      tmp_start (fst (phase_frame su joy clk p ''go'' True (v, e))) = tmp_start v \<and>
      tmp_full (fst (phase_frame su joy clk p ''go'' True (v, e))) = tmp_full v \<and>
      (pending e = [] \<longrightarrow>
         cursor_shown (last (screen (snd (phase_frame su joy clk p ''go'' True (v, e))))))) \<and>
   (starting_radius su \<le> scaled_radius (scaling su) joy (polls e) \<and>
    scaled_radius (scaling su) joy (polls e) < hidden_radius su * (9 / 10) \<longrightarrow>
      tmp_start (fst (phase_frame su joy clk p ''go'' True (v, e))) = 1 \<and>
      tmp_full (fst (phase_frame su joy clk p ''go'' True (v, e))) = tmp_full v \<and>
      (pending e = [] \<longrightarrow>
         \<not> cursor_shown (last (screen (snd (phase_frame su joy clk p ''go'' True (v, e))))))) \<and>
   (starting_radius su \<le> hidden_radius su * (9 / 10) \<and>
    hidden_radius su * (9 / 10) \<le> scaled_radius (scaling su) joy (polls e) \<longrightarrow>
      tmp_start (fst (phase_frame su joy clk p ''go'' True (v, e))) = tmp_start v \<and>
      tmp_full (fst (phase_frame su joy clk p ''go'' True (v, e))) = 1 \<and>
      (pending e = [] \<longrightarrow>
         cursor_shown (last (screen (snd (phase_frame su joy clk p ''go'' True (v, e))))))) \<and>
   ((\<forall>k<nat (py_int (framerate_r su * d)).
        scaled_radius (scaling su) joy (polls e + k) < starting_radius su) \<longrightarrow>
      res_start (run_phase su joy clk d p ''go'' True e) = 0 \<and>
      res_full (run_phase su joy clk d p ''go'' True e) = 0) \<and>
   (i < nat (py_int (framerate_r su * d)) \<and>
    starting_radius su \<le> scaled_radius (scaling su) joy (polls e + i) \<and>
    scaled_radius (scaling su) joy (polls e + i) < hidden_radius su * (9 / 10) \<and>
    j < nat (py_int (framerate_r su * d)) \<and>
    hidden_radius su * (9 / 10) \<le> scaled_radius (scaling su) joy (polls e + j) \<longrightarrow>
      res_start (run_phase su joy clk d p ''go'' True e) = 1 \<and>
      res_full (run_phase su joy clk d p ''go'' True e) = 1) \<and>
   (scaled_radius scaling' (in_joy inp) (polls st) < starting_radius' \<longrightarrow>
      start_mov (go_frame inp go n st) = start_mov st \<and>
      full_mov (go_frame inp go n st) = full_mov st \<and>
      (pending st = [] \<longrightarrow> cursor_shown (last (screen (go_frame inp go n st))))) \<and>
   (starting_radius' \<le> scaled_radius scaling' (in_joy inp) (polls st) \<and>
    scaled_radius scaling' (in_joy inp) (polls st) < hidden_radius' * (9 / 10) \<longrightarrow>
      start_mov (go_frame inp go n st) = 1 \<and>
      full_mov (go_frame inp go n st) = full_mov st \<and>
      (pending st = [] \<longrightarrow> \<not> cursor_shown (last (screen (go_frame inp go n st))))) \<and>
   (hidden_radius' * (9 / 10) \<le> scaled_radius scaling' (in_joy inp) (polls st) \<longrightarrow>
      start_mov (go_frame inp go n st) = start_mov st \<and>
      full_mov (go_frame inp go n st) = 1 \<and>
      (pending st = [] \<longrightarrow> cursor_shown (last (screen (go_frame inp go n st))))) \<and>
   (start_mov st = 0 \<and> full_mov st = 0 \<and>
    (\<forall>k<nat (py_int (in_framerate_r inp * go_time')).
        scaled_radius scaling' (in_joy inp) (polls st + k) < starting_radius') \<longrightarrow>
      start_mov (go_phase inp angle go st) = 0 \<and> full_mov (go_phase inp angle go st) = 0) \<and>
   (i' < nat (py_int (in_framerate_r inp * go_time')) \<and>
    starting_radius' \<le> scaled_radius scaling' (in_joy inp) (polls st + i') \<and>
    scaled_radius scaling' (in_joy inp) (polls st + i') < hidden_radius' * (9 / 10) \<and>
    j' < nat (py_int (in_framerate_r inp * go_time')) \<and>
    hidden_radius' * (9 / 10) \<le> scaled_radius scaling' (in_joy inp) (polls st + j') \<longrightarrow>
      start_mov (go_phase inp angle go st) = 1 \<and> full_mov (go_phase inp angle go st) = 1)"
proof (intro conjI)
  show "scaled_radius (scaling su) joy (polls e) < starting_radius su \<longrightarrow>
      tmp_start (fst (phase_frame su joy clk p ''go'' True (v, e))) = tmp_start v \<and>
      tmp_full (fst (phase_frame su joy clk p ''go'' True (v, e))) = tmp_full v \<and>
      (pending e = [] \<longrightarrow>
         cursor_shown (last (screen (snd (phase_frame su joy clk p ''go'' True (v, e))))))"
    using phase_frame_go_near by blast
  show "starting_radius su \<le> scaled_radius (scaling su) joy (polls e) \<and>
    scaled_radius (scaling su) joy (polls e) < hidden_radius su * (9 / 10) \<longrightarrow>
      tmp_start (fst (phase_frame su joy clk p ''go'' True (v, e))) = 1 \<and>
      tmp_full (fst (phase_frame su joy clk p ''go'' True (v, e))) = tmp_full v \<and>
      (pending e = [] \<longrightarrow>
         \<not> cursor_shown (last (screen (snd (phase_frame su joy clk p ''go'' True (v, e))))))"
    using phase_frame_go_zone by blast
  show "starting_radius su \<le> hidden_radius su * (9 / 10) \<and>
    hidden_radius su * (9 / 10) \<le> scaled_radius (scaling su) joy (polls e) \<longrightarrow>
      tmp_start (fst (phase_frame su joy clk p ''go'' True (v, e))) = tmp_start v \<and>
      tmp_full (fst (phase_frame su joy clk p ''go'' True (v, e))) = 1 \<and>
      (pending e = [] \<longrightarrow>
         cursor_shown (last (screen (snd (phase_frame su joy clk p ''go'' True (v, e))))))"
    using phase_frame_go_far by blast
  show "(\<forall>k<nat (py_int (framerate_r su * d)).
        scaled_radius (scaling su) joy (polls e + k) < starting_radius su) \<longrightarrow>
      res_start (run_phase su joy clk d p ''go'' True e) = 0 \<and>
      res_full (run_phase su joy clk d p ''go'' True e) = 0"
    using run_phase_go_near by blast
  show "i < nat (py_int (framerate_r su * d)) \<and>
    starting_radius su \<le> scaled_radius (scaling su) joy (polls e + i) \<and>
    scaled_radius (scaling su) joy (polls e + i) < hidden_radius su * (9 / 10) \<and>
    j < nat (py_int (framerate_r su * d)) \<and>
    hidden_radius su * (9 / 10) \<le> scaled_radius (scaling su) joy (polls e + j) \<longrightarrow>
      res_start (run_phase su joy clk d p ''go'' True e) = 1 \<and>
      res_full (run_phase su joy clk d p ''go'' True e) = 1"
    using run_phase_go_reach by blast
  show "scaled_radius scaling' (in_joy inp) (polls st) < starting_radius' \<longrightarrow>
      start_mov (go_frame inp go n st) = start_mov st \<and>
      full_mov (go_frame inp go n st) = full_mov st \<and>
      (pending st = [] \<longrightarrow> cursor_shown (last (screen (go_frame inp go n st))))"
    using go_frame_near by blast
  show "starting_radius' \<le> scaled_radius scaling' (in_joy inp) (polls st) \<and>
    scaled_radius scaling' (in_joy inp) (polls st) < hidden_radius' * (9 / 10) \<longrightarrow>
      start_mov (go_frame inp go n st) = 1 \<and>
      full_mov (go_frame inp go n st) = full_mov st \<and>
      (pending st = [] \<longrightarrow> \<not> cursor_shown (last (screen (go_frame inp go n st))))"
    using go_frame_zone by blast
  show "hidden_radius' * (9 / 10) \<le> scaled_radius scaling' (in_joy inp) (polls st) \<longrightarrow>
      start_mov (go_frame inp go n st) = start_mov st \<and>
      full_mov (go_frame inp go n st) = 1 \<and>
      (pending st = [] \<longrightarrow> cursor_shown (last (screen (go_frame inp go n st))))"
    using go_frame_far by blast
  show "start_mov st = 0 \<and> full_mov st = 0 \<and>
    (\<forall>k<nat (py_int (in_framerate_r inp * go_time')).
        scaled_radius scaling' (in_joy inp) (polls st + k) < starting_radius') \<longrightarrow>
      start_mov (go_phase inp angle go st) = 0 \<and> full_mov (go_phase inp angle go st) = 0"
    using go_phase_near by blast
  show "i' < nat (py_int (in_framerate_r inp * go_time')) \<and>
    starting_radius' \<le> scaled_radius scaling' (in_joy inp) (polls st + i') \<and>
    scaled_radius scaling' (in_joy inp) (polls st + i') < hidden_radius' * (9 / 10) \<and>
    j' < nat (py_int (in_framerate_r inp * go_time')) \<and>
    hidden_radius' * (9 / 10) \<le> scaled_radius scaling' (in_joy inp) (polls st + j') \<longrightarrow>
      start_mov (go_phase inp angle go st) = 1 \<and> full_mov (go_phase inp angle go st) = 1"
    using go_phase_reach by blast
qed

theorem go_frame_movement_flags_witness:
  "scaled_radius (scaling (example_setup 4)) reach (polls env0) < starting_radius (example_setup 4) \<and>
   pending env0 = [] \<and>
   cursor_shown (last (screen (snd (phase_frame (example_setup 4) reach seconds 0 ''go'' True
      (\<lparr>x_tmp = [], y_tmp = [], t_tmp = [], tmp_start = 0, tmp_full = 0\<rparr>, env0))))) \<and>
   tmp_start (fst (phase_frame (example_setup 4) reach seconds 0 ''go'' True
      (\<lparr>x_tmp = [], y_tmp = [], t_tmp = [], tmp_start = 0, tmp_full = 0\<rparr>, env0))) = 0 \<and>
   \<not> cursor_shown (last (screen (snd (phase_frame (example_setup 4) reach seconds 0 ''go'' True
      (\<lparr>x_tmp = [], y_tmp = [], t_tmp = [], tmp_start = 0, tmp_full = 0\<rparr>,
       env0\<lparr>polls := 1\<rparr>))))) \<and>
   tmp_start (fst (phase_frame (example_setup 4) reach seconds 0 ''go'' True
      (\<lparr>x_tmp = [], y_tmp = [], t_tmp = [], tmp_start = 0, tmp_full = 0\<rparr>,
       env0\<lparr>polls := 1\<rparr>))) = 1 \<and>
   cursor_shown (last (screen (snd (phase_frame (example_setup 4) reach seconds 0 ''go'' True
      (\<lparr>x_tmp = [], y_tmp = [], t_tmp = [], tmp_start = 0, tmp_full = 0\<rparr>,
       env0\<lparr>polls := 3\<rparr>))))) \<and>
   tmp_full (fst (phase_frame (example_setup 4) reach seconds 0 ''go'' True
      (\<lparr>x_tmp = [], y_tmp = [], t_tmp = [], tmp_start = 0, tmp_full = 0\<rparr>,
       env0\<lparr>polls := 3\<rparr>))) = 1 \<and>
   res_start (run_phase (example_setup 4) hold seconds 1 0 ''go'' True env0) = 0 \<and>
   res_full (run_phase (example_setup 4) hold seconds 1 0 ''go'' True env0) = 0 \<and>
   res_start (run_phase (example_setup 4) reach seconds 1 0 ''go'' True env0) = 1 \<and>
   res_full (run_phase (example_setup 4) reach seconds 1 0 ''go'' True env0) = 1 \<and>
   cursor_shown (last (screen (go_frame (example_inputs reach 8) 0 0 (pilot0 ssd_init)))) \<and>
   start_mov (go_frame (example_inputs reach 8) 0 0 (pilot0 ssd_init)) = 0 \<and>
   \<not> cursor_shown (last (screen (go_frame (example_inputs reach 8) 0 1
      ((pilot0 ssd_init)\<lparr>polls := 1\<rparr>)))) \<and>
   start_mov (go_frame (example_inputs reach 8) 0 1 ((pilot0 ssd_init)\<lparr>polls := 1\<rparr>)) = 1 \<and>
   cursor_shown (last (screen (go_frame (example_inputs reach 8) 0 3
      ((pilot0 ssd_init)\<lparr>polls := 3\<rparr>)))) \<and>
   full_mov (go_frame (example_inputs reach 8) 0 3 ((pilot0 ssd_init)\<lparr>polls := 3\<rparr>)) = 1 \<and>
   start_mov (go_phase (example_inputs hold 8) 0 0 (pilot0 ssd_init)) = 0 \<and>
   full_mov (go_phase (example_inputs hold 8) 0 0 (pilot0 ssd_init)) = 0 \<and>
   start_mov (go_phase (example_inputs reach 8) 0 0 (pilot0 ssd_init)) = 1 \<and>
   full_mov (go_phase (example_inputs reach 8) 0 0 (pilot0 ssd_init)) = 1"
proof -
  let ?v = "\<lparr>x_tmp = [], y_tmp = [], t_tmp = [], tmp_start = 0, tmp_full = 0\<rparr>"
  have su: "scaling (example_setup 4) = 12" "starting_radius (example_setup 4) = 1"
    "hidden_radius (example_setup 4) = 10" "framerate_r (example_setup 4) = 4"
    by (simp_all add: example_setup_def)
  have pc: "scaling' = 12" "starting_radius' = 1" "hidden_radius' = 10"
    "py_int (8 * go_time') = 6" "py_int 4 = 4"
    by (simp_all add: scaling'_def starting_radius'_def hidden_radius'_def go_time'_def
        py_int_def)
  have e: "polls env0 = 0" "pending env0 = []" "polls (env0\<lparr>polls := 1\<rparr>) = 1"
    "pending (env0\<lparr>polls := 1\<rparr>) = []" "polls (env0\<lparr>polls := 3\<rparr>) = 3"
    "pending (env0\<lparr>polls := 3\<rparr>) = []"
    by (simp_all add: env0_def)
  have st: "polls (pilot0 ssd_init) = 0" "pending (pilot0 ssd_init) = []"
    "start_mov (pilot0 ssd_init) = 0" "full_mov (pilot0 ssd_init) = 0"
    "polls ((pilot0 ssd_init)\<lparr>polls := 1\<rparr>) = 1" "pending ((pilot0 ssd_init)\<lparr>polls := 1\<rparr>) = []"
    "polls ((pilot0 ssd_init)\<lparr>polls := 3\<rparr>) = 3" "pending ((pilot0 ssd_init)\<lparr>polls := 3\<rparr>) = []"
    by (simp_all add: pilot0_def)
  note facts = su pc e st example_radius example_inputs_simps
  note a0 = go_frame_movement_flags [where su = "example_setup 4" and joy = reach and e = env0
      and clk = seconds and p = 0 and v = ?v and d = 1 and i = 1 and j = 3
      and inp = "example_inputs reach 8" and st = "pilot0 ssd_init" and go = 0 and n = 0
      and angle = 0 and i' = 1 and j' = 3]
  note a1 = go_frame_movement_flags [where su = "example_setup 4" and joy = reach
      and e = "env0\<lparr>polls := 1\<rparr>" and clk = seconds and p = 0 and v = ?v and d = 1 and i = 1
      and j = 3 and inp = "example_inputs reach 8" and st = "(pilot0 ssd_init)\<lparr>polls := 1\<rparr>"
      and go = 0 and n = 1 and angle = 0 and i' = 1 and j' = 3]
  note a3 = go_frame_movement_flags [where su = "example_setup 4" and joy = reach
      and e = "env0\<lparr>polls := 3\<rparr>" and clk = seconds and p = 0 and v = ?v and d = 1 and i = 1
      and j = 3 and inp = "example_inputs reach 8" and st = "(pilot0 ssd_init)\<lparr>polls := 3\<rparr>"
      and go = 0 and n = 3 and angle = 0 and i' = 1 and j' = 3]
  note ah = go_frame_movement_flags [where su = "example_setup 4" and joy = hold and e = env0
      and clk = seconds and p = 0 and v = ?v and d = 1 and i = 1 and j = 3
      and inp = "example_inputs hold 8" and st = "pilot0 ssd_init" and go = 0 and n = 0
      and angle = 0 and i' = 1 and j' = 3]
  have h0: "scaled_radius (scaling (example_setup 4)) reach (polls env0) <
      starting_radius (example_setup 4)"
    by (simp add: facts)
  have c0: "cursor_shown (last (screen (snd (phase_frame (example_setup 4) reach seconds 0 ''go''
        True (?v, env0))))) \<and>
      tmp_start (fst (phase_frame (example_setup 4) reach seconds 0 ''go'' True (?v, env0))) = 0 \<and>
      res_start (run_phase (example_setup 4) reach seconds 1 0 ''go'' True env0) = 1 \<and>
      res_full (run_phase (example_setup 4) reach seconds 1 0 ''go'' True env0) = 1 \<and>
      cursor_shown (last (screen (go_frame (example_inputs reach 8) 0 0 (pilot0 ssd_init)))) \<and>
      start_mov (go_frame (example_inputs reach 8) 0 0 (pilot0 ssd_init)) = 0 \<and>
      start_mov (go_phase (example_inputs reach 8) 0 0 (pilot0 ssd_init)) = 1 \<and>
      full_mov (go_phase (example_inputs reach 8) 0 0 (pilot0 ssd_init)) = 1"
    using a0 by (simp add: facts)
  have c1: "\<not> cursor_shown (last (screen (snd (phase_frame (example_setup 4) reach seconds 0
        ''go'' True (?v, env0\<lparr>polls := 1\<rparr>))))) \<and>
      tmp_start (fst (phase_frame (example_setup 4) reach seconds 0 ''go'' True
        (?v, env0\<lparr>polls := 1\<rparr>))) = 1 \<and>
      \<not> cursor_shown (last (screen (go_frame (example_inputs reach 8) 0 1
        ((pilot0 ssd_init)\<lparr>polls := 1\<rparr>)))) \<and>
      start_mov (go_frame (example_inputs reach 8) 0 1 ((pilot0 ssd_init)\<lparr>polls := 1\<rparr>)) = 1"
    using a1 by (simp add: facts)
  have c3: "cursor_shown (last (screen (snd (phase_frame (example_setup 4) reach seconds 0
        ''go'' True (?v, env0\<lparr>polls := 3\<rparr>))))) \<and>
      tmp_full (fst (phase_frame (example_setup 4) reach seconds 0 ''go'' True
        (?v, env0\<lparr>polls := 3\<rparr>))) = 1 \<and>
      cursor_shown (last (screen (go_frame (example_inputs reach 8) 0 3
        ((pilot0 ssd_init)\<lparr>polls := 3\<rparr>)))) \<and>
      full_mov (go_frame (example_inputs reach 8) 0 3 ((pilot0 ssd_init)\<lparr>polls := 3\<rparr>)) = 1"
    using a3 by (simp add: facts)
  have ch: "res_start (run_phase (example_setup 4) hold seconds 1 0 ''go'' True env0) = 0 \<and>
      res_full (run_phase (example_setup 4) hold seconds 1 0 ''go'' True env0) = 0 \<and>
      start_mov (go_phase (example_inputs hold 8) 0 0 (pilot0 ssd_init)) = 0 \<and>
      full_mov (go_phase (example_inputs hold 8) 0 0 (pilot0 ssd_init)) = 0"
    using ah by (simp add: facts)
  show ?thesis
    using h0 e(2) c0 c1 c3 ch by blast
qed

subsection \<open>The movement flags over a trial\<close>

lemma frame_loop_flags_stay:
  "tmp_start (fst (frame_loop su joy clk p nm g fs ve)) \<noteq> 0 \<Longrightarrow>
     tmp_start (fst (frame_loop su joy clk p nm g (fs @ gs) ve)) \<noteq> 0"
  "tmp_full (fst (frame_loop su joy clk p nm g fs ve)) \<noteq> 0 \<Longrightarrow>
     tmp_full (fst (frame_loop su joy clk p nm g (fs @ gs) ve)) \<noteq> 0"
  by (simp_all add: frame_loop_append
      frame_loop_start [of su joy clk p nm g gs] frame_loop_full [of su joy clk p nm g gs])

lemma go_loop_flags_stay:
  "start_mov (go_loop inp go fs st) \<noteq> 0 \<Longrightarrow> start_mov (go_loop inp go (fs @ gs) st) \<noteq> 0"
  "full_mov (go_loop inp go fs st) \<noteq> 0 \<Longrightarrow> full_mov (go_loop inp go (fs @ gs) st) \<noteq> 0"
  by (simp_all add: go_loop_append go_loop_start [of inp go gs] go_loop_full [of inp go gs])

lemma run_phase_loop_flags:
  "res_start (run_phase su joy clk d p nm g e) =
     tmp_start (fst (frame_loop su joy clk p nm g (phase_frames su d)
       (\<lparr>x_tmp = [], y_tmp = [], t_tmp = [], tmp_start = 0, tmp_full = 0\<rparr>,
        snd (getTime clk e))))"
  "res_full (run_phase su joy clk d p nm g e) =
     tmp_full (fst (frame_loop su joy clk p nm g (phase_frames su d)
       (\<lparr>x_tmp = [], y_tmp = [], t_tmp = [], tmp_start = 0, tmp_full = 0\<rparr>,
        snd (getTime clk e))))"
  by (simp_all add: run_phase_eq Let_def res_start_def res_full_def getTime_def)

text \<open>
  C4. The flags are 0 when a trial starts: \<^verbatim>\<open>run_phase\<close> starts its loop with
  both at 0, and the stop-signal script sets both to 0 before the fixation loop, which
  like the ready loop leaves them alone. Over the frames of the GO loop a flag that is set
  after some frames is set after any further frames, and the post-GO loop does not touch
  the flags.
\<close>

theorem movement_flags_monotone:
  "res_start (run_phase su joy clk d p nm g e) =
     tmp_start (fst (frame_loop su joy clk p nm g (phase_frames su d)
       (\<lparr>x_tmp = [], y_tmp = [], t_tmp = [], tmp_start = 0, tmp_full = 0\<rparr>,
        snd (getTime clk e)))) \<and>
   res_full (run_phase su joy clk d p nm g e) =
     tmp_full (fst (frame_loop su joy clk p nm g (phase_frames su d)
       (\<lparr>x_tmp = [], y_tmp = [], t_tmp = [], tmp_start = 0, tmp_full = 0\<rparr>,
        snd (getTime clk e)))) \<and>
   tmp_start (fst (frame_loop su joy clk p nm g []
       (\<lparr>x_tmp = [], y_tmp = [], t_tmp = [], tmp_start = 0, tmp_full = 0\<rparr>, e'))) = 0 \<and>
   tmp_full (fst (frame_loop su joy clk p nm g []
       (\<lparr>x_tmp = [], y_tmp = [], t_tmp = [], tmp_start = 0, tmp_full = 0\<rparr>, e'))) = 0 \<and>
   (tmp_start (fst (frame_loop su joy clk p nm g fs ve)) \<noteq> 0 \<longrightarrow>
      tmp_start (fst (frame_loop su joy clk p nm g (fs @ gs) ve)) \<noteq> 0) \<and>
   (tmp_full (fst (frame_loop su joy clk p nm g fs ve)) \<noteq> 0 \<longrightarrow>
      tmp_full (fst (frame_loop su joy clk p nm g (fs @ gs) ve)) \<noteq> 0) \<and>
   start_mov (reset_trial st) = 0 \<and> full_mov (reset_trial st) = 0 \<and>
   start_mov (go_cue inp angle (before_go inp st)) = 0 \<and>
   full_mov (go_cue inp angle (before_go inp st)) = 0 \<and>
   (start_mov (go_loop inp go fs st) \<noteq> 0 \<longrightarrow> start_mov (go_loop inp go (fs @ gs) st) \<noteq> 0) \<and>
   (full_mov (go_loop inp go fs st) \<noteq> 0 \<longrightarrow> full_mov (go_loop inp go (fs @ gs) st) \<noteq> 0) \<and>
   start_mov (post_go_phase inp st) = start_mov st \<and>
   full_mov (post_go_phase inp st) = full_mov st"
  using frame_loop_flags_stay [of su joy clk p nm g fs ve gs]
    go_loop_flags_stay [of inp go fs st gs]
    run_phase_loop_flags [of su joy clk d p nm g e]
  by simp

theorem movement_flags_monotone_witness:
  "tmp_start (fst (frame_loop (example_setup 4) reach seconds 0 ''go'' True [0, 1]
      (\<lparr>x_tmp = [], y_tmp = [], t_tmp = [], tmp_start = 0, tmp_full = 0\<rparr>, env0))) \<noteq> 0 \<and>
   tmp_start (fst (frame_loop (example_setup 4) reach seconds 0 ''go'' True ([0, 1] @ [2, 3])
      (\<lparr>x_tmp = [], y_tmp = [], t_tmp = [], tmp_start = 0, tmp_full = 0\<rparr>, env0))) \<noteq> 0 \<and>
   tmp_full (fst (frame_loop (example_setup 4) reach seconds 0 ''go'' True [0, 1, 2, 3]
      (\<lparr>x_tmp = [], y_tmp = [], t_tmp = [], tmp_start = 0, tmp_full = 0\<rparr>, env0))) \<noteq> 0 \<and>
   tmp_full (fst (frame_loop (example_setup 4) reach seconds 0 ''go'' True ([0, 1, 2, 3] @ [4])
      (\<lparr>x_tmp = [], y_tmp = [], t_tmp = [], tmp_start = 0, tmp_full = 0\<rparr>, env0))) \<noteq> 0 \<and>
   start_mov (go_loop (example_inputs reach 8) 0 [0, 1] (pilot0 ssd_init)) \<noteq> 0 \<and>
   start_mov (go_loop (example_inputs reach 8) 0 ([0, 1] @ [2, 3, 4, 5]) (pilot0 ssd_init)) \<noteq> 0 \<and>
   full_mov (go_loop (example_inputs reach 8) 0 [0, 1, 2, 3] (pilot0 ssd_init)) \<noteq> 0 \<and>
   full_mov (go_loop (example_inputs reach 8) 0 ([0, 1, 2, 3] @ [4, 5]) (pilot0 ssd_init)) \<noteq> 0"
proof -
  let ?v = "\<lparr>x_tmp = [], y_tmp = [], t_tmp = [], tmp_start = 0, tmp_full = 0\<rparr>"
  have su: "scaling (example_setup 4) = 12" "starting_radius (example_setup 4) = 1"
    "hidden_radius (example_setup 4) = 10"
    by (simp_all add: example_setup_def)
  have pc: "scaling' = 12" "starting_radius' = 1" "hidden_radius' = 10"
    by (simp_all add: scaling'_def starting_radius'_def hidden_radius'_def)
  have e: "polls env0 = 0" "polls (pilot0 ssd_init) = 0"
    by (simp_all add: env0_def pilot0_def)
  have a: "tmp_start (fst (frame_loop (example_setup 4) reach seconds 0 ''go'' True [0, 1]
      (?v, env0))) \<noteq> 0"
    by (simp add: phase_frame_start su e example_radius)
  have b: "tmp_full (fst (frame_loop (example_setup 4) reach seconds 0 ''go'' True [0, 1, 2, 3]
      (?v, env0))) \<noteq> 0"
    by (simp add: phase_frame_full su e example_radius)
  have c: "start_mov (go_loop (example_inputs reach 8) 0 [0, 1] (pilot0 ssd_init)) \<noteq> 0"
    by (simp add: go_frame_start pc e example_radius)
  have d: "full_mov (go_loop (example_inputs reach 8) 0 [0, 1, 2, 3] (pilot0 ssd_init)) \<noteq> 0"
    by (simp add: go_frame_full pc e example_radius)
  note t1 = movement_flags_monotone [where su = "example_setup 4" and joy = reach
      and clk = seconds and p = 0 and nm = "''go''" and g = True and fs = "[0, 1]"
      and gs = "[2, 3]" and ve = "(?v, env0)" and inp = "example_inputs reach 8" and go = 0
      and st = "pilot0 ssd_init"]
  note t2 = movement_flags_monotone [where su = "example_setup 4" and joy = reach
      and clk = seconds and p = 0 and nm = "''go''" and g = True and fs = "[0, 1, 2, 3]"
      and gs = "[4]" and ve = "(?v, env0)" and inp = "example_inputs reach 8" and go = 0
      and st = "pilot0 ssd_init"]
  note t3 = movement_flags_monotone [where inp = "example_inputs reach 8" and go = 0
      and st = "pilot0 ssd_init" and fs = "[0, 1]" and gs = "[2, 3, 4, 5]"]
  note t4 = movement_flags_monotone [where inp = "example_inputs reach 8" and go = 0
      and st = "pilot0 ssd_init" and fs = "[0, 1, 2, 3]" and gs = "[4, 5]"]
  have a': "tmp_start (fst (frame_loop (example_setup 4) reach seconds 0 ''go'' True
      ([0, 1] @ [2, 3]) (?v, env0))) \<noteq> 0"
    using t1 a by blast
  have b': "tmp_full (fst (frame_loop (example_setup 4) reach seconds 0 ''go'' True
      ([0, 1, 2, 3] @ [4]) (?v, env0))) \<noteq> 0"
    using t2 b by blast
  have c': "start_mov (go_loop (example_inputs reach 8) 0 ([0, 1] @ [2, 3, 4, 5])
      (pilot0 ssd_init)) \<noteq> 0"
    using t3 c by blast
  have d': "full_mov (go_loop (example_inputs reach 8) 0 ([0, 1, 2, 3] @ [4, 5])
      (pilot0 ssd_init)) \<noteq> 0"
    using t4 d by blast
  show ?thesis
    using a a' b b' c c' d d' by blast
qed

subsection \<open>The list of target angles\<close>

lemma length_concat_replicate: "length (concat (replicate n xs)) = n * length xs"
  by (induction n) simp_all

lemma length_py_repeat [simp]: "length (py_repeat xs k) = nat k * length xs"
  by (simp add: py_repeat_def length_concat_replicate)

lemma py_int_fifth: "nat (py_int (of_int n / 5)) = nat (n div 5)"
proof -
  have "\<lfloor>real_of_int n / real_of_int 5\<rfloor> = n div 5"
    by (rule floor_divide_of_int_eq)
  then show ?thesis
    by (simp add: py_int_nat)
qed

lemma length_generate_angle_list:
  "length (generate_angle_list su) = 5 * nat (n_trial su div 5)"
  by (simp add: generate_angle_list_def py_int_fifth)

lemma py_index_ok: "0 \<le> t \<Longrightarrow> (\<exists>a. py_index xs t = Inr a) \<longleftrightarrow> t < int (length xs)"
  by (auto simp: py_index_def Let_def)

lemma py_index_past: "int (length xs) \<le> t \<Longrightarrow> py_index xs t = Inl IndexError"
  by (simp add: py_index_def Let_def)

lemma set_arange: "set (arange n) = {t. 0 \<le> t \<and> t < n}"
proof -
  have "t \<in> int ` {0..<nat n} \<longleftrightarrow> 0 \<le> t \<and> t < n" for t
    by (auto simp: image_iff intro: bexI [of _ "nat t"])
  then show ?thesis
    by (auto simp: arange_def)
qed

lemma all_trials_in_bounds:
  assumes "0 \<le> n" and "length al = 5 * nat (n div 5)"
  shows "(\<forall>t\<in>set (arange n). \<exists>a. py_index al t = Inr a) \<longleftrightarrow> 5 dvd n"
proof
  assume all: "\<forall>t\<in>set (arange n). \<exists>a. py_index al t = Inr a"
  show "5 dvd n"
  proof (rule ccontr)
    assume nd: "\<not> 5 dvd n"
    then have "0 < n" using assms(1) by (cases "n = 0") auto
    then have "n - 1 \<in> set (arange n)"
      by (simp add: set_arange)
    then have "n - 1 < int (length al)"
      using all py_index_ok [of "n - 1" al] \<open>0 < n\<close> by auto
    moreover have "0 \<le> n div 5"
      using assms(1) by (simp add: pos_imp_zdiv_nonneg_iff)
    ultimately have "n \<le> 5 * (n div 5)"
      using assms(2) by simp
    moreover have "5 * (n div 5) < n"
      using nd by (simp add: dvd_eq_mod_eq_0) presburger
    ultimately show False by simp
  qed
next
  assume "5 dvd n"
  then have "int (length al) = n"
    using assms by auto
  then show "\<forall>t\<in>set (arange n). \<exists>a. py_index al t = Inr a"
    by (simp add: set_arange py_index_ok)
qed

lemma py_index_empty: "length xs = 0 \<Longrightarrow> py_index xs t = Inl IndexError"
  by (simp add: py_index_def Let_def)

lemma past_the_list:
  assumes "length al = 5 * nat (n div 5)" and "5 * (n div 5) \<le> t"
  shows "py_index al t = Inl IndexError"
proof (cases "0 \<le> n div 5")
  case True
  then have "int (length al) \<le> t"
    using assms by simp
  then show ?thesis by (rule py_index_past)
next
  case False
  then have "length al = 0"
    using assms(1) by simp
  then show ?thesis by (rule py_index_empty)
qed

lemma length_angle_list_made: "length angle_list_made = 5 * nat (Ntrial div 5)"
  by (simp add: angle_list_made_def py_int_fifth)

text \<open>
  C9. The list of target angles has 5 * floor(n_trial / 5) entries, and so has any
  shuffle of it. For a trial count that is not negative, every trial index below n_trial
  is inside the list exactly when 5 divides n_trial; an index from 5 * floor(n_trial / 5)
  to below n_trial is past the end and the lookup raises. The list of the stop-signal
  script, made for 310 trials, holds every trial index of its loop.
\<close>

theorem angle_list_bounds:
  "length (generate_angle_list su) = 5 * nat (n_trial su div 5) \<and>
   (mset al = mset (generate_angle_list su) \<longrightarrow>
      length al = 5 * nat (n_trial su div 5) \<and>
      (0 \<le> n_trial su \<longrightarrow>
         ((\<forall>t\<in>set (arange (n_trial su)). \<exists>a. py_index al t = Inr a) \<longleftrightarrow> 5 dvd n_trial su)) \<and>
      (\<forall>t. 5 * (n_trial su div 5) \<le> t \<and> t < n_trial su \<longrightarrow> py_index al t = Inl IndexError)) \<and>
   length angle_list_made = 5 * nat (Ntrial div 5) \<and>
   nat Ntrial = 5 * nat (Ntrial div 5) \<and>
   (mset al' = mset angle_list_made \<longrightarrow>
      (\<forall>t\<in>set (arange Ntrial). \<exists>a. py_index al' t = Inr a))"
proof -
  have a: "length al = 5 * nat (n_trial su div 5)"
    if "mset al = mset (generate_angle_list su)"
    using mset_eq_length [OF that] by (simp add: length_generate_angle_list)
  have b: "(\<forall>t\<in>set (arange (n_trial su)). \<exists>a. py_index al t = Inr a) \<longleftrightarrow> 5 dvd n_trial su"
    if "mset al = mset (generate_angle_list su)" "0 \<le> n_trial su"
    using all_trials_in_bounds [OF that(2) a [OF that(1)]] .
  have c: "py_index al t = Inl IndexError"
    if "mset al = mset (generate_angle_list su)" "5 * (n_trial su div 5) \<le> t" for t
    using past_the_list [OF a [OF that(1)] that(2)] .
  have d: "\<forall>t\<in>set (arange Ntrial). \<exists>a. py_index al' t = Inr a"
    if "mset al' = mset angle_list_made"
  proof -
    have "length al' = 5 * nat (Ntrial div 5)"
      using mset_eq_length [OF that] by (simp add: length_angle_list_made)
    moreover have "0 \<le> Ntrial" "5 dvd Ntrial"
      by (simp_all add: Ntrial_def)
    ultimately show ?thesis
      using all_trials_in_bounds [of Ntrial al'] by blast
  qed
  have e: "nat Ntrial = 5 * nat (Ntrial div 5)"
    by (simp add: Ntrial_def)
  show ?thesis
    using a b c d e length_generate_angle_list [of su] length_angle_list_made by blast
qed

theorem angle_list_bounds_witness:
  "mset (rev (generate_angle_list (example_setup 60))) =
     mset (generate_angle_list (example_setup 60)) \<and>
   0 \<le> n_trial (example_setup 60) \<and>
   length (rev (generate_angle_list (example_setup 60))) = 310 \<and>
   5 dvd n_trial (example_setup 60) \<and>
   (\<exists>a. py_index (rev (generate_angle_list (example_setup 60))) 309 = Inr a) \<and>
   mset (rev (generate_angle_list ((example_setup 60)\<lparr>n_trial := 7\<rparr>))) =
     mset (generate_angle_list ((example_setup 60)\<lparr>n_trial := 7\<rparr>)) \<and>
   length (rev (generate_angle_list ((example_setup 60)\<lparr>n_trial := 7\<rparr>))) = 5 \<and>
   \<not> (\<forall>t\<in>set (arange 7).
      \<exists>a. py_index (rev (generate_angle_list ((example_setup 60)\<lparr>n_trial := 7\<rparr>))) t = Inr a) \<and>
   py_index (rev (generate_angle_list ((example_setup 60)\<lparr>n_trial := 7\<rparr>))) 5 = Inl IndexError \<and>
   py_index (rev (generate_angle_list ((example_setup 60)\<lparr>n_trial := 7\<rparr>))) 6 = Inl IndexError \<and>
   mset (rev angle_list_made) = mset angle_list_made \<and>
   (\<exists>a. py_index (rev angle_list_made) 309 = Inr a)"
proof -
  let ?s = "example_setup 60"
  let ?s7 = "(example_setup 60)\<lparr>n_trial := 7\<rparr>"
  have n: "n_trial ?s = 310" "n_trial ?s7 = 7"
    by (simp_all add: example_setup_def)
  have m: "mset (rev (generate_angle_list ?s)) = mset (generate_angle_list ?s)"
    "mset (rev (generate_angle_list ?s7)) = mset (generate_angle_list ?s7)"
    "mset (rev angle_list_made) = mset angle_list_made"
    by simp_all
  note t = angle_list_bounds [of ?s "rev (generate_angle_list ?s)" "rev angle_list_made"]
  note t7 = angle_list_bounds [of ?s7 "rev (generate_angle_list ?s7)" "rev angle_list_made"]
  have l: "length (rev (generate_angle_list ?s)) = 5 * nat (n_trial ?s div 5)"
    and i: "(\<forall>t\<in>set (arange (n_trial ?s)).
        \<exists>a. py_index (rev (generate_angle_list ?s)) t = Inr a) \<longleftrightarrow> 5 dvd n_trial ?s"
    using t m(1) n(1) by simp_all
  have l7: "length (rev (generate_angle_list ?s7)) = 5 * nat (n_trial ?s7 div 5)"
    and i7: "(\<forall>t\<in>set (arange (n_trial ?s7)).
        \<exists>a. py_index (rev (generate_angle_list ?s7)) t = Inr a) \<longleftrightarrow> 5 dvd n_trial ?s7"
    and p7: "\<forall>t. 5 * (n_trial ?s7 div 5) \<le> t \<and> t < n_trial ?s7 \<longrightarrow>
        py_index (rev (generate_angle_list ?s7)) t = Inl IndexError"
    using t7 m(2) n(2) by simp_all
  have pl: "\<forall>t\<in>set (arange Ntrial). \<exists>a. py_index (rev angle_list_made) t = Inr a"
    using t m(3) by blast
  have "(309::int) \<in> set (arange Ntrial)"
    by (simp add: set_arange Ntrial_def)
  then have q: "\<exists>a. py_index (rev angle_list_made) 309 = Inr a"
    using pl by blast
  have "length (rev (generate_angle_list ?s)) = 310"
    using l by (simp add: n)
  moreover have "5 dvd n_trial ?s"
    by (simp add: n)
  moreover have "\<exists>a. py_index (rev (generate_angle_list ?s)) 309 = Inr a"
  proof -
    have "\<forall>t\<in>set (arange (n_trial ?s)).
        \<exists>a. py_index (rev (generate_angle_list ?s)) t = Inr a"
      using i by (simp add: n)
    moreover have "(309::int) \<in> set (arange (n_trial ?s))"
      by (simp add: set_arange n)
    ultimately show ?thesis by blast
  qed
  moreover have "length (rev (generate_angle_list ?s7)) = 5"
    using l7 by (simp add: n)
  moreover have "\<not> (\<forall>t\<in>set (arange 7).
      \<exists>a. py_index (rev (generate_angle_list ?s7)) t = Inr a)"
    using i7 by (simp add: n)
  moreover have "py_index (rev (generate_angle_list ?s7)) 5 = Inl IndexError"
    "py_index (rev (generate_angle_list ?s7)) 6 = Inl IndexError"
    using p7 by (simp_all add: n)
  ultimately show ?thesis
    using m q n(1) by simp
qed

subsection \<open>A trial of adaptation_main.py\<close>

text \<open>
  \<^verbatim>\<open>execute_trial\<close> either waits at the centring gate for ever or raises at
  the end of the fixation phase, where six returned values meet four names; the movement
  flags and the trace of a trial are therefore stated on \<^verbatim>\<open>run_phase\<close> above.
\<close>

lemma execute_trial_raises:
  "execute_trial su joy clk trial p e = None \<or>
   execute_trial su joy clk trial p e = Some (Inl ValueError)"
  by (simp add: execute_trial_def Let_def split_beta split: option.splits)

subsection \<open>The coordinate functions over the reals\<close>

text \<open>
  Over the reals \<^verbatim>\<open>pol2cart\<close> undoes \<^verbatim>\<open>cart2pol\<close> at every point, and the
  radius is not negative. In the scripts the point is the scaled sample, which is what the
  cursor gets back when the perturbation is 0. The rounding of the floating-point
  functions is outside this model.
\<close>

lemma hypot_nonneg: "0 \<le> hypot x y"
  by (simp add: hypot_def)

lemma hypot_scaled:
  assumes "x \<noteq> 0"
  shows "hypot x y = \<bar>x\<bar> * sqrt (1 + (y / x)\<^sup>2)"
proof -
  have "x\<^sup>2 + y\<^sup>2 = x\<^sup>2 * (1 + (y / x)\<^sup>2)"
    using assms by (simp add: field_simps power2_eq_square)
  then have "hypot x y = sqrt (x\<^sup>2 * (1 + (y / x)\<^sup>2))"
    by (simp add: hypot_def)
  also have "\<dots> = \<bar>x\<bar> * sqrt (1 + (y / x)\<^sup>2)"
    by (simp add: real_sqrt_mult)
  finally show ?thesis .
qed

lemma sqrt_one_plus_pos: "0 < sqrt (1 + t\<^sup>2)" for t :: real
  by (simp add: add_pos_nonneg)

lemma pol2cart_cart2pol:
  "pol2cart (fst (cart2pol x y)) (snd (cart2pol x y)) = (x, y)"
proof -
  have pos: "sqrt (1 + (y / x)\<^sup>2) \<noteq> 0"
    using sqrt_one_plus_pos [of "y / x"] by simp
  consider "0 < x" | "x < 0" "0 \<le> y" | "x < 0" "y < 0" | "x = 0" "0 < y" | "x = 0" "y < 0"
    | "x = 0" "y = 0"
    by linarith
  then show ?thesis
  proof cases
    case 1
    then show ?thesis
      using pos by (simp add: pol2cart_def cart2pol_def arctan2_def hypot_scaled cos_arctan sin_arctan)
  next
    case 2
    then show ?thesis
      using pos by (simp add: pol2cart_def cart2pol_def arctan2_def hypot_scaled cos_arctan sin_arctan)
  next
    case 3
    then show ?thesis
      using pos by (simp add: pol2cart_def cart2pol_def arctan2_def hypot_scaled cos_arctan sin_arctan)
  next
    case 4
    then show ?thesis
      by (simp add: pol2cart_def cart2pol_def arctan2_def hypot_def)
  next
    case 5
    then show ?thesis
      by (simp add: pol2cart_def cart2pol_def arctan2_def hypot_def)
  next
    case 6
    then show ?thesis
      by (simp add: pol2cart_def cart2pol_def arctan2_def hypot_def)
  qed
qed

lemma length_go_list_made: "length go_list_made = nat Ntrial"
  by (simp add: go_list_made_def Ntrial_def stop_trial_def)

end
